theory Spec2Isabelle
  imports Main "HOL-Library.Word" "HOL-Library.Monad_Syntax"
begin

unbundle bit_operations_syntax

chapter \<open>The atom decoder and the emitter primitives of libfyaml\<close>

text \<open>
  A shallow embedding of the text-processing core of libfyaml: the UTF-8 codec of
  \<^verbatim>\<open>fy-utf8.h\<close>, the atom iterator of \<^verbatim>\<open>fy-atom.c\<close> and the write primitive and
  scalar style selector of \<^verbatim>\<open>fy-emit.c\<close>.

  Conventions.
  \<^item> A byte (\<^verbatim>\<open>uint8_t\<close>, \<^verbatim>\<open>char\<close> read through \<^verbatim>\<open>& 0xff\<close>) is an \<open>8 word\<close>.
  \<^item> A C \<^verbatim>\<open>int\<close> holding a code point, a byte or the sentinel \<open>-1\<close> is an \<open>int\<close>;
    none of the values computed here reaches the 32-bit limits.
  \<^item> A pointer into the input buffer is the offset (a \<open>nat\<close>) from the start of that
    buffer; a pointer that may be \<^verbatim>\<open>NULL\<close> is a \<open>nat option\<close>.
  \<^item> Memory handed to a decoder through a pointer is the list of bytes from that pointer
    on; a read past the end of that list yields the byte \<open>0\<close>.
  \<^item> A call that would dereference a null pointer, or fail an \<^verbatim>\<open>assert\<close>, returns \<open>None\<close>.
\<close>

section \<open>UTF-8 codec (\<^verbatim>\<open>fy-utf8.h\<close>)\<close>

type_synonym byte = "8 word"

definition byte_at :: "byte list \<Rightarrow> nat \<Rightarrow> byte" where
  "byte_at p i = (if i < length p then p ! i else 0)"

definition fy_utf8_width_by_first_octet :: "byte \<Rightarrow> int" where
  "fy_utf8_width_by_first_octet c =
     (if c AND 0x80 = 0x00 then 1
      else if c AND 0xe0 = 0xc0 then 2
      else if c AND 0xf0 = 0xe0 then 3
      else if c AND 0xf8 = 0xf0 then 4 else 0)"

definition fy_utf8_width :: "int \<Rightarrow> nat" where
  "fy_utf8_width c =
     (if c < 0x80 then 1 else if c < 0x800 then 2 else if c < 0x10000 then 3 else 4)"

definition fy_utf8_is_valid :: "int \<Rightarrow> bool" where
  "fy_utf8_is_valid c \<longleftrightarrow>
     c \<ge> 0 \<and> \<not> ((c \<ge> 0xd800 \<and> c \<le> 0xdfff) \<or> c \<ge> 0x110000)"

text \<open>
  Modelled from the spec: \<^verbatim>\<open>fy_utf8_get_generic\<close> is declared in \<^verbatim>\<open>fy-utf8.h\<close> but its
  body is not among the sources. The spec (section 4.1) says: the decoder returns the
  value and the consumed width; the width is determined from the first octet (1 to 4
  bytes); an invalid lead byte or a truncated sequence yields no character, encoded as
  \<open>-1\<close> with width \<open>0\<close>; validity rejects surrogates and values from \<open>0x110000\<close> on.
  The payload bits are those of UTF-8: the lead byte keeps its low \<open>7 - width\<close> bits
  and each further byte contributes its low six bits.
\<close>

definition fy_utf8_get_generic :: "byte list \<Rightarrow> int \<Rightarrow> int \<times> int" where
  "fy_utf8_get_generic p left =
     (if left < 1 then (- 1, 0)
      else let width = fy_utf8_width_by_first_octet (byte_at p 0) in
        if width = 0 \<or> width > left then (- 1, 0)
        else let v = fold (\<lambda>i v. push_bit 6 v OR (uint (byte_at p i) AND 0x3f))
                       [1..<nat width]
                       (uint (byte_at p 0) AND drop_bit (nat width) 0x7f)
          in if fy_utf8_is_valid v then (v, width) else (- 1, 0))"

text \<open>\<^verbatim>\<open>fy_utf8_get(ptr, left, &w)\<close>: the pair is the returned code point and \<^verbatim>\<open>w\<close>.\<close>

definition fy_utf8_get :: "byte list \<Rightarrow> int \<Rightarrow> int \<times> int" where
  "fy_utf8_get p left =
     (if left \<le> 0 then (- 1, 0)
      else if byte_at p 0 AND 0x80 = 0 then (uint (byte_at p 0 AND 0x7f), 1)
      else fy_utf8_get_generic p left)"

text \<open>
  \<^verbatim>\<open>fy_utf8_put_unchecked(ptr, c)\<close>: the bytes stored from \<^verbatim>\<open>ptr\<close> on; \<open>None\<close> is the
  failed \<^verbatim>\<open>assert(c >= 0)\<close>. Storing an \<^verbatim>\<open>int\<close> into a \<^verbatim>\<open>uint8_t\<close> keeps its low eight
  bits (\<open>word_of_int\<close>).
\<close>

definition fy_utf8_put_unchecked :: "int \<Rightarrow> byte list option" where
  "fy_utf8_put_unchecked c =
     (if c < 0 then None
      else if c < 0x80 then Some [word_of_int c]
      else if c < 0x800 then
        Some [word_of_int (drop_bit 6 c OR 0xc0),
              word_of_int ((c AND 0x3f) OR 0x80)]
      else if c < 0x10000 then
        Some [word_of_int (drop_bit 12 c OR 0xe0),
              word_of_int ((drop_bit 6 c AND 0x3f) OR 0x80),
              word_of_int ((c AND 0x3f) OR 0x80)]
      else
        Some [word_of_int (drop_bit 18 c OR 0xf0),
              word_of_int ((drop_bit 12 c AND 0x3f) OR 0x80),
              word_of_int ((drop_bit 6 c AND 0x3f) OR 0x80),
              word_of_int ((c AND 0x3f) OR 0x80)])"

text \<open>\<^verbatim>\<open>fy_utf8_put(ptr, left, c)\<close>: \<open>None\<close> is the \<^verbatim>\<open>NULL\<close> return.\<close>

definition fy_utf8_put :: "nat \<Rightarrow> int \<Rightarrow> byte list option" where
  "fy_utf8_put left c =
     (if \<not> fy_utf8_is_valid c \<or> fy_utf8_width c > left then None
      else fy_utf8_put_unchecked c)"

section \<open>Character classes and escape parsers\<close>

text \<open>
  Modelled from the spec: the character-class predicates of \<^verbatim>\<open>fy-ctype.h\<close> are not
  among the sources. The spec (section 4.2) classifies each code point as a line break,
  as whitespace (space or tab) or as other; the line breaks it names are line feed and
  carriage return (section 4.6: a CR-LF pair collapses to one newline).
\<close>

definition fy_is_space :: "int \<Rightarrow> bool" where
  "fy_is_space c \<longleftrightarrow> c = 0x20"

definition fy_is_tab :: "int \<Rightarrow> bool" where
  "fy_is_tab c \<longleftrightarrow> c = 0x09"

definition fy_is_ws :: "int \<Rightarrow> bool" where
  "fy_is_ws c \<longleftrightarrow> fy_is_space c \<or> fy_is_tab c"

definition fy_is_lb :: "int \<Rightarrow> bool" where
  "fy_is_lb c \<longleftrightarrow> c = 0x0d \<or> c = 0x0a"

definition fy_is_ws_lb :: "int \<Rightarrow> bool" where
  "fy_is_ws_lb c \<longleftrightarrow> fy_is_ws c \<or> fy_is_lb c"

text \<open>
  Modelled from the spec: \<^verbatim>\<open>fy_is_print\<close> is not among the sources. The spec (section
  4.4, double-quoted-manual) passes printable characters through and escapes the
  non-printable ones, among them every character that has a named escape; printable
  is taken as the printable set of YAML 1.2 without the characters that have a named
  escape and without the byte order mark.
\<close>

definition fy_is_print :: "int \<Rightarrow> bool" where
  "fy_is_print c \<longleftrightarrow>
     (0x20 \<le> c \<and> c \<le> 0x7e) \<or> (0xa1 \<le> c \<and> c \<le> 0xd7ff \<and> c \<noteq> 0x2028 \<and> c \<noteq> 0x2029) \<or>
     (0xe000 \<le> c \<and> c \<le> 0xfffd \<and> c \<noteq> 0xfeff) \<or> (0x10000 \<le> c \<and> c \<le> 0x10ffff)"


text \<open>
  \<^verbatim>\<open>memchr(s, ch, n)\<close> on the buffer \<open>buf\<close>: the offset of the first byte equal to \<open>ch\<close>
  among the \<open>n\<close> bytes from offset \<open>s\<close>, or \<open>None\<close> for \<^verbatim>\<open>NULL\<close>.
\<close>

definition memchr :: "byte list \<Rightarrow> nat \<Rightarrow> byte \<Rightarrow> nat \<Rightarrow> nat option" where
  "memchr buf s ch n = find (\<lambda>i. byte_at buf i = ch) [s..<s + n]"

text \<open>The \<open>n\<close> bytes of \<open>buf\<close> from offset \<open>s\<close>: what a chunk \<open>(str, len)\<close> views.\<close>

definition mem_slice :: "byte list \<Rightarrow> nat \<Rightarrow> nat \<Rightarrow> byte list" where
  "mem_slice buf s n = map (byte_at buf) [s..<s + n]"

definition hexval :: "byte \<Rightarrow> int option" where
  "hexval b =
     (let c = uint b in
      if 0x30 \<le> c \<and> c \<le> 0x39 then Some (c - 0x30)
      else if 0x61 \<le> c \<and> c \<le> 0x66 then Some (c - 0x61 + 10)
      else if 0x41 \<le> c \<and> c \<le> 0x46 then Some (c - 0x41 + 10)
      else None)"

fun hexrun :: "byte list \<Rightarrow> int \<Rightarrow> int option" where
  "hexrun [] acc = Some acc"
| "hexrun (b # bs) acc =
     (case hexval b of None \<Rightarrow> None | Some d \<Rightarrow> hexrun bs (acc * 16 + d))"

text \<open>
  Modelled from the spec: \<^verbatim>\<open>fy_utf8_parse_escape\<close> is declared in \<^verbatim>\<open>fy-utf8.h\<close> but its
  body is not among the sources. The spec (section 4.4) lists the escapes of a
  double-quoted scalar: \<^verbatim>\<open>\0 \a \b \t \n \v \f \r \e \" \\ \/ \(space) \N \_ \L \P\<close> and the
  numeric \<^verbatim>\<open>\xHH \uHHHH \UHHHHHHHH\<close>; anything else is a malformed escape (section 7).
  The call \<^verbatim>\<open>fy_utf8_parse_escape(&t, len)\<close> with \<^verbatim>\<open>t\<close> at the backslash is
  \<open>fy_utf8_parse_escape buf t len\<close>: \<open>Some (value, t')\<close> with \<open>t'\<close> past the escape, or
  \<open>None\<close> for a negative return.
\<close>

definition fy_utf8_parse_escape :: "byte list \<Rightarrow> nat \<Rightarrow> nat \<Rightarrow> (int \<times> nat) option" where
  "fy_utf8_parse_escape buf t len =
     (if len < 2 \<or> byte_at buf t \<noteq> 0x5c then None
      else let c = uint (byte_at buf (t + 1)) in
        if c = 0x30 then Some (0x00, t + 2)
        else if c = 0x61 then Some (0x07, t + 2)
        else if c = 0x62 then Some (0x08, t + 2)
        else if c = 0x74 \<or> c = 0x09 then Some (0x09, t + 2)
        else if c = 0x6e then Some (0x0a, t + 2)
        else if c = 0x76 then Some (0x0b, t + 2)
        else if c = 0x66 then Some (0x0c, t + 2)
        else if c = 0x72 then Some (0x0d, t + 2)
        else if c = 0x65 then Some (0x1b, t + 2)
        else if c = 0x22 then Some (0x22, t + 2)
        else if c = 0x5c then Some (0x5c, t + 2)
        else if c = 0x2f then Some (0x2f, t + 2)
        else if c = 0x20 then Some (0x20, t + 2)
        else if c = 0x4e then Some (0x85, t + 2)
        else if c = 0x5f then Some (0xa0, t + 2)
        else if c = 0x4c then Some (0x2028, t + 2)
        else if c = 0x50 then Some (0x2029, t + 2)
        else
          (let n = (if c = 0x78 then 2 else if c = 0x75 then 4 else if c = 0x55 then 8 else 0 :: nat) in
           if n = 0 \<or> len < 2 + n then None
           else (case hexrun (mem_slice buf (t + 2) n) 0 of
                   None \<Rightarrow> None
                 | Some v \<Rightarrow> Some (v, t + 2 + n))))"

text \<open>
  Modelled from the spec: \<^verbatim>\<open>fy_uri_esc\<close> is not among the sources. The spec (section
  4.4) says that the uri style decodes percent-escapes \<^verbatim>\<open>%HH\<close>, possibly several for one
  multi-byte code point, into one inline chunk, and that a bad escape is an error
  (section 7). The call \<^verbatim>\<open>fy_uri_esc(s, len, code, &code_length)\<close> is
  \<open>fy_uri_esc buf s len\<close>: \<open>Some (code, t)\<close> with the decoded bytes and the position past
  the escapes, or \<open>None\<close> for \<^verbatim>\<open>NULL\<close>. The first escaped byte gives the width of the
  code point, and that many escapes are consumed.
\<close>

definition uri_hex_octet :: "byte list \<Rightarrow> nat \<Rightarrow> byte option" where
  "uri_hex_octet buf s =
     (if byte_at buf s \<noteq> 0x25 then None
      else (case hexrun (mem_slice buf (s + 1) 2) 0 of
              None \<Rightarrow> None
            | Some v \<Rightarrow> Some (word_of_int v)))"

fun uri_octets :: "byte list \<Rightarrow> nat \<Rightarrow> nat \<Rightarrow> byte list option" where
  "uri_octets buf s 0 = Some []"
| "uri_octets buf s (Suc k) =
     (case uri_hex_octet buf s of
        None \<Rightarrow> None
      | Some b \<Rightarrow> (case uri_octets buf (s + 3) k of None \<Rightarrow> None | Some bs \<Rightarrow> Some (b # bs)))"

definition fy_uri_esc :: "byte list \<Rightarrow> nat \<Rightarrow> nat \<Rightarrow> (byte list \<times> nat) option" where
  "fy_uri_esc buf s len =
     (if len < 3 then None
      else (case uri_hex_octet buf s of
              None \<Rightarrow> None
            | Some b \<Rightarrow>
                (let w = nat (fy_utf8_width_by_first_octet b) in
                 if w = 0 \<or> len < 3 * w then None
                 else (case uri_octets buf s w of
                         None \<Rightarrow> None
                       | Some code \<Rightarrow> Some (code, s + 3 * w)))))"

section \<open>Atoms and atom iterators (\<^verbatim>\<open>fy-atom.h\<close>)\<close>

datatype fy_atom_style =
  FYAS_PLAIN | FYAS_SINGLE_QUOTED | FYAS_DOUBLE_QUOTED | FYAS_LITERAL | FYAS_FOLDED
| FYAS_URI | FYAS_DOUBLE_QUOTED_MANUAL | FYAS_COMMENT

definition fy_atom_style_is_quoted :: "fy_atom_style \<Rightarrow> bool" where
  "fy_atom_style_is_quoted style \<longleftrightarrow> style = FYAS_SINGLE_QUOTED \<or> style = FYAS_DOUBLE_QUOTED"

definition fy_atom_style_is_block :: "fy_atom_style \<Rightarrow> bool" where
  "fy_atom_style_is_block style \<longleftrightarrow> style = FYAS_LITERAL \<or> style = FYAS_FOLDED"

datatype fy_atom_chomp = FYAC_STRIP | FYAC_CLIP | FYAC_KEEP

text \<open>
  \<^verbatim>\<open>struct fy_mark\<close> (declared in \<^verbatim>\<open>libfyaml.h\<close>, which is not among the sources): the
  spec (section 3) gives a mark a byte offset, a line and a column.
\<close>

record fy_mark =
  input_pos :: nat
  line :: int
  column :: int

text \<open>
  \<^verbatim>\<open>struct fy_atom\<close>. The field \<^verbatim>\<open>fyi\<close> points to the input; here it is the bytes of that
  input's buffer. The fields \<^verbatim>\<open>empty\<close> and \<^verbatim>\<open>chomp\<close> are \<open>a_empty\<close> and \<open>a_chomp\<close>.
\<close>

record fy_atom =
  start_mark :: fy_mark
  end_mark :: fy_mark
  storage_hint :: nat
  fyi :: "byte list"
  increment :: nat
  style :: fy_atom_style
  a_chomp :: fy_atom_chomp
  direct_output :: bool
  storage_hint_valid :: bool
  a_empty :: bool
  has_lb :: bool
  has_ws :: bool
  starts_with_ws :: bool
  starts_with_lb :: bool
  ends_with_ws :: bool
  ends_with_lb :: bool
  trailing_lb :: bool
  size0 :: bool

text \<open>
  Modelled from the spec: \<^verbatim>\<open>fy_atom_data\<close> and \<^verbatim>\<open>fy_atom_size\<close> are not among the
  sources. The spec (section 3) describes an atom as a contiguous region of an input
  buffer between the byte offsets of its start mark and its end mark. A pointer into
  the region is its offset in the input buffer.
\<close>

definition fy_atom_data :: "fy_atom \<Rightarrow> nat" where
  "fy_atom_data atom = input_pos (start_mark atom)"

definition fy_atom_size :: "fy_atom \<Rightarrow> nat" where
  "fy_atom_size atom = input_pos (end_mark atom) - input_pos (start_mark atom)"

text \<open>
  \<^verbatim>\<open>struct fy_atom_iter_line_info\<close>, fields prefixed \<open>li_\<close>. The sizes \<^verbatim>\<open>start_ws\<close> and
  \<^verbatim>\<open>end_ws\<close> are integers, with \<open>-1\<close> for \<^verbatim>\<open>(size_t)-1\<close>.
\<close>

record fy_atom_iter_line_info =
  li_start :: "nat option"
  li_end :: "nat option"
  li_nws_start :: "nat option"
  li_nws_end :: "nat option"
  li_chomp_start :: "nat option"
  li_trailing_ws :: bool
  li_empty :: bool
  li_trailing_breaks :: bool
  li_trailing_breaks_ws :: bool
  li_first :: bool
  li_last :: bool
  li_final :: bool
  li_indented :: bool
  li_lb_end :: bool
  li_need_nl :: bool
  li_need_sep :: bool
  li_start_ws :: int
  li_end_ws :: int
  li_s :: "nat option"
  li_e :: "nat option"

text \<open>The line info that \<^verbatim>\<open>memset(..., 0, ...)\<close> leaves.\<close>

definition li_zero :: fy_atom_iter_line_info where
  "li_zero = \<lparr> li_start = None, li_end = None, li_nws_start = None, li_nws_end = None,
      li_chomp_start = None, li_trailing_ws = False, li_empty = False,
      li_trailing_breaks = False, li_trailing_breaks_ws = False, li_first = False,
      li_last = False, li_final = False, li_indented = False, li_lb_end = False,
      li_need_nl = False, li_need_sep = False, li_start_ws = 0, li_end_ws = 0,
      li_s = None, li_e = None \<rparr>"

text \<open>
  \<^verbatim>\<open>struct fy_atom_iter\<close>, fields prefixed \<open>it_\<close>.
  \<^item> \<open>it_li\<close> is the two-slot array \<^verbatim>\<open>li[2]\<close>, indexed by the bit \<^verbatim>\<open>current\<close>.
  \<^item> A chunk \<^verbatim>\<open>(str, len)\<close> is the list of the bytes it views. The chunk array holds
    \<^verbatim>\<open>top\<close> live entries: it is the list \<open>it_chunks\<close>, and \<^verbatim>\<open>top\<close> is its length.
  \<^item> \<open>it_mem\<close> is not a field of the C structure: it is the number of chunk slots up to
    which \<^verbatim>\<open>realloc\<close> succeeds for this iterator. A request for more fails.
\<close>

record fy_atom_iter =
  it_atom :: fy_atom
  it_s :: nat
  it_e :: nat
  it_chomp :: nat
  it_tabsize :: int
  it_single_line :: bool
  it_dangling_end_quote :: bool
  it_empty :: bool
  it_current :: bool
  it_done :: bool
  it_li :: "bool \<Rightarrow> fy_atom_iter_line_info"
  it_alloc :: nat
  it_read :: nat
  it_chunks :: "byte list list"
  it_unget_c :: int
  it_mem :: nat

abbreviation it_top :: "fy_atom_iter \<Rightarrow> nat" where
  "it_top iter \<equiv> length (it_chunks iter)"

definition NR_STARTUP_CHUNKS :: nat where
  "NR_STARTUP_CHUNKS = 8"

section \<open>Chunk storage and line analysis (\<^verbatim>\<open>fy-atom.c\<close>)\<close>

definition fy_atom_iter_chunk_reset :: "fy_atom_iter \<Rightarrow> fy_atom_iter" where
  "fy_atom_iter_chunk_reset iter = iter\<lparr>it_chunks := [], it_read := 0\<rparr>"

text \<open>The first component is the returned \<^verbatim>\<open>int\<close>: \<open>0\<close>, or \<open>-1\<close> when \<^verbatim>\<open>realloc\<close> fails.\<close>

definition fy_atom_iter_grow_chunk :: "fy_atom_iter \<Rightarrow> int \<times> fy_atom_iter" where
  "fy_atom_iter_grow_chunk iter =
     (if it_alloc iter * 2 \<le> it_mem iter
      then (0, iter\<lparr>it_alloc := it_alloc iter * 2\<rparr>)
      else (- 1, iter))"

text \<open>
  \<^verbatim>\<open>fy_atom_iter_add_chunk(iter, str, len)\<close>: \<open>str\<close> is the list of the \<^verbatim>\<open>len\<close> bytes at
  \<^verbatim>\<open>str\<close>. The two asserts of the C functions (\<^verbatim>\<open>top < alloc\<close> after growing, and at most
  ten bytes in an inline copy) hold for every iterator that \<^verbatim>\<open>fy_atom_iter_start\<close> set
  up, where \<^verbatim>\<open>alloc\<close> starts at 8 and only doubles.
\<close>

definition fy_atom_iter_add_chunk :: "fy_atom_iter \<Rightarrow> byte list \<Rightarrow> int \<times> fy_atom_iter" where
  "fy_atom_iter_add_chunk iter str =
     (if str = [] then (0, iter)
      else let (ret, iter1) =
                 (if it_top iter \<ge> it_alloc iter then fy_atom_iter_grow_chunk iter else (0, iter))
        in if ret \<noteq> 0 then (ret, iter1)
           else (0, iter1\<lparr>it_chunks := it_chunks iter1 @ [str]\<rparr>))"

definition fy_atom_iter_add_chunk_copy :: "fy_atom_iter \<Rightarrow> byte list \<Rightarrow> int \<times> fy_atom_iter" where
  "fy_atom_iter_add_chunk_copy iter str =
     (if str = [] then (0, iter)
      else let (ret, iter1) =
                 (if it_top iter \<ge> it_alloc iter then fy_atom_iter_grow_chunk iter else (0, iter))
        in if ret \<noteq> 0 then (ret, iter1)
           else (0, iter1\<lparr>it_chunks := it_chunks iter1 @ [str]\<rparr>))"

lemma fy_utf8_get_generic_bounds:
  "fy_utf8_get_generic p left = (c, w) \<Longrightarrow> c \<noteq> - 1 \<Longrightarrow> 1 \<le> w \<and> w \<le> left \<and> 0 \<le> c"
  by (auto simp add: fy_utf8_get_generic_def fy_utf8_width_by_first_octet_def Let_def
      fy_utf8_is_valid_def split: if_splits)

lemma fy_utf8_get_bounds:
  "fy_utf8_get p left = (c, w) \<Longrightarrow> c \<noteq> - 1 \<Longrightarrow> 1 \<le> w \<and> w \<le> left \<and> 0 \<le> c"
  by (auto simp add: fy_utf8_get_def split: if_splits dest: fy_utf8_get_generic_bounds)

text \<open>
  The first loop of \<^verbatim>\<open>fy_atom_iter_line_analyze\<close>, from the position \<open>ss\<close>: the result is
  the line info with the values of \<^verbatim>\<open>col\<close>, \<^verbatim>\<open>ss\<close>, \<^verbatim>\<open>cws\<close>, \<^verbatim>\<open>last_was_ws\<close>, \<^verbatim>\<open>c\<close> and \<^verbatim>\<open>w\<close>
  when the loop is left. The tab size \<^verbatim>\<open>ts\<close> is the constant 8. The loop is left by
  \<^verbatim>\<open>break\<close> once \<^verbatim>\<open>li->end\<close> is set: \<^verbatim>\<open>iter->chomp\<close> is unsigned, so \<^verbatim>\<open>iter->chomp >= 0\<close>
  holds.
\<close>

function analyze_loop ::
  "byte list \<Rightarrow> nat \<Rightarrow> bool \<Rightarrow> nat \<Rightarrow> fy_atom_iter_line_info \<Rightarrow> int \<Rightarrow> nat \<Rightarrow> int \<Rightarrow> bool \<Rightarrow>
   fy_atom_iter_line_info \<times> int \<times> nat \<times> int \<times> bool \<times> int \<times> int" where
  "analyze_loop buf e is_block chomp li col ss cws last_was_ws =
     (let (c, w) = fy_utf8_get (drop ss buf) (int e - int ss) in
      if c = - 1 then (li, col, ss, cws, last_was_ws, c, w)
      else
        let li1 = (if is_block \<and> li_chomp_start li = None \<and> nat col \<ge> chomp
                   then li\<lparr>li_chomp_start := Some ss, li_indented := fy_is_ws c\<rparr> else li);
            (li2, col2, cws2, lww2) =
              (if fy_is_lb c then
                 let la = (if li_end li1 = None
                           then li1\<lparr>li_end := Some ss, li_trailing_ws := last_was_ws,
                                   li_end_ws := cws, li_lb_end := True\<rparr>
                           else li1);
                     lb = (if is_block \<and> li_chomp_start la = None
                           then la\<lparr>li_chomp_start := Some ss\<rparr> else la)
                 in if \<not> last_was_ws then (lb\<lparr>li_nws_end := Some ss\<rparr>, 0, 0, True)
                    else (lb, 0, cws, last_was_ws)
               else if fy_is_ws c then
                 let advws = (if fy_is_space c then 1 else 8 - col mod 8)
                 in if \<not> last_was_ws
                    then (li1\<lparr>li_nws_end := Some ss\<rparr>, col + advws, cws + advws, True)
                    else (li1, col + advws, cws + advws, last_was_ws)
               else
                 let la = (if li_nws_start li1 = None then li1\<lparr>li_nws_start := Some ss\<rparr> else li1);
                     lb = (if li_empty la then la\<lparr>li_empty := False\<rparr> else la);
                     lc = (if li_start_ws lb = - 1 then lb\<lparr>li_start_ws := cws\<rparr> else lb)
                 in (lc, col + 1, cws, False))
        in if li_end li2 \<noteq> None then (li2, col2, ss, cws2, lww2, c, w)
           else analyze_loop buf e is_block chomp li2 col2 (ss + nat w) cws2 lww2)"
  by pat_completeness auto
termination
proof (relation "measure (\<lambda>(buf, e, is_block, chomp, li, col, ss, cws, lww). e - ss)")
  show "wf (measure (\<lambda>(buf, e, is_block, chomp, li, col, ss, cws, lww). e - ss))"
    by simp
next
  fix buf :: "byte list" and e :: nat and ss :: nat and x :: "int \<times> int" and c w :: int
  assume "x = fy_utf8_get (drop ss buf) (int e - int ss)" "(c, w) = x" "c \<noteq> - 1"
  then have "1 \<le> w \<and> w \<le> int e - int ss"
    using fy_utf8_get_bounds [of "drop ss buf" "int e - int ss" c w] by simp
  then show "\<And>is_block chomp li col cws lww li2 col2 cws2 lww2.
      ((buf, e, is_block, chomp, li2, col2, ss + nat w, cws2, lww2),
       (buf, e, is_block, chomp, li, col, ss, cws, lww))
      \<in> measure (\<lambda>(buf, e, is_block, chomp, li, col, ss, cws, lww). e - ss)"
    by (simp, arith)
qed

text \<open>The second loop of \<^verbatim>\<open>fy_atom_iter_line_analyze\<close>: the line info and \<^verbatim>\<open>ss\<close> at its end.\<close>

function trailing_loop ::
  "byte list \<Rightarrow> nat \<Rightarrow> bool \<Rightarrow> nat \<Rightarrow> fy_atom_iter_line_info \<Rightarrow> int \<Rightarrow> nat \<Rightarrow>
   fy_atom_iter_line_info \<times> nat" where
  "trailing_loop buf e is_block chomp li col ss =
     (let (c, w) = fy_utf8_get (drop ss buf) (int e - int ss) in
      if c \<noteq> - 1 \<and> fy_is_ws_lb c then
        let li1 = (if \<not> li_trailing_breaks li \<and> fy_is_lb c
                   then li\<lparr>li_trailing_breaks := True\<rparr> else li);
            li2 = (if \<not> li_trailing_breaks_ws li1 \<and> is_block \<and> nat col > chomp
                   then li1\<lparr>li_trailing_breaks_ws := True\<rparr> else li1);
            col2 = (if fy_is_lb c then 0
                    else if fy_is_tab c then col + (8 - col mod 8) else col + 1)
        in trailing_loop buf e is_block chomp li2 col2 (ss + nat w)
      else (li, ss))"
  by pat_completeness auto
termination
proof (relation "measure (\<lambda>(buf, e, is_block, chomp, li, col, ss). e - ss)")
  show "wf (measure (\<lambda>(buf, e, is_block, chomp, li, col, ss). e - ss))"
    by simp
next
  fix buf :: "byte list" and e :: nat and ss :: nat and x :: "int \<times> int" and c w :: int
  assume "x = fy_utf8_get (drop ss buf) (int e - int ss)" "(c, w) = x"
    "c \<noteq> - 1 \<and> fy_is_ws_lb c"
  then have "1 \<le> w \<and> w \<le> int e - int ss"
    using fy_utf8_get_bounds [of "drop ss buf" "int e - int ss" c w] by simp
  then show "\<And>is_block chomp li col li2 col2.
      ((buf, e, is_block, chomp, li2, col2, ss + nat w), (buf, e, is_block, chomp, li, col, ss))
      \<in> measure (\<lambda>(buf, e, is_block, chomp, li, col, ss). e - ss)"
    by (simp, arith)
qed

text \<open>
  \<^verbatim>\<open>fy_atom_iter_line_analyze(iter, li, line_start, len)\<close>: \<open>li\<close> is the content of the slot
  before the call (the fields that the function does not write keep it), the result is
  its content after. \<^verbatim>\<open>len\<close> is the difference \<^verbatim>\<open>iter->e - line_start\<close> in every call; as a
  \<^verbatim>\<open>size_t\<close> it wraps when \<^verbatim>\<open>line_start\<close> is past \<^verbatim>\<open>iter->e\<close>, and \<^verbatim>\<open>line_start + len\<close> is
  \<^verbatim>\<open>iter->e\<close> again: here \<open>len\<close> is the integer difference.
\<close>

definition fy_atom_iter_line_analyze ::
  "fy_atom_iter \<Rightarrow> fy_atom_iter_line_info \<Rightarrow> nat \<Rightarrow> int \<Rightarrow> fy_atom_iter_line_info" where
  "fy_atom_iter_line_analyze iter li line_start len =
     (let atom = it_atom iter;
          buf = fyi atom;
          s = line_start;
          e = nat (int line_start + len);
          is_block = (style atom = FYAS_LITERAL \<or> style atom = FYAS_FOLDED)
      in if direct_output atom \<and> \<not> has_lb atom \<and> \<not> has_ws atom then
           li\<lparr>li_start := Some s, li_end := Some e, li_nws_start := Some s, li_nws_end := Some e,
              li_chomp_start := Some s, li_empty := a_empty atom, li_trailing_breaks := False,
              li_trailing_breaks_ws := False, li_start_ws := 0, li_end_ws := 0,
              li_indented := False, li_lb_end := ends_with_lb atom, li_final := True\<rparr>
         else
           let li0 = li\<lparr>li_start := Some s, li_end := None, li_nws_start := None,
                        li_nws_end := None, li_chomp_start := None, li_trailing_ws := False,
                        li_empty := True, li_trailing_breaks := False,
                        li_trailing_breaks_ws := False, li_first := False, li_start_ws := - 1,
                        li_end_ws := - 1, li_indented := False, li_lb_end := False,
                        li_final := False\<rparr>;
               (li1, col, ss, cws, last_was_ws, c, w) =
                  analyze_loop buf e is_block (it_chomp iter) li0 0 s 0 False;
               li2 = li1\<lparr>li_final := (c = - 1)\<rparr>;
               li3 = (if \<not> last_was_ws then li2\<lparr>li_nws_end := Some ss\<rparr> else li2);
               li4 = (if li_nws_start li3 = None then li3\<lparr>li_nws_start := Some ss\<rparr> else li3);
               li5 = (if li_nws_end li4 = None then li4\<lparr>li_nws_end := Some ss\<rparr> else li4);
               li6 = (if is_block \<and> li_chomp_start li5 = None
                      then li5\<lparr>li_chomp_start := Some ss\<rparr> else li5);
               li7 = (if li_start_ws li6 = - 1 then li6\<lparr>li_start_ws := 0\<rparr> else li6)
           in if li_end li7 = None then
                li7\<lparr>li_end := Some (it_e iter), li_trailing_ws := last_was_ws, li_last := True,
                    li_end_ws := cws, li_lb_end := False\<rparr>
              else
                let (ss1, col1) =
                      (if c \<ge> 0 then
                         (ss + nat w,
                          if fy_is_lb c then 0
                          else if fy_is_tab c then col + (8 - col mod 8) else col + 1)
                       else (ss, col))
                in if ss1 \<ge> e then li7\<lparr>li_last := True\<rparr>
                   else
                     let (li8, ss2) = trailing_loop buf e is_block (it_chomp iter) li7 col1 ss1
                     in li8\<lparr>li_last := (ss2 \<ge> e)\<rparr>)"

definition fy_atom_iter_start :: "nat \<Rightarrow> fy_atom \<Rightarrow> fy_atom_iter" where
  "fy_atom_iter_start mem atom =
     (let s = fy_atom_data atom;
          len = fy_atom_size atom;
          iter0 = \<lparr> it_atom = atom, it_s = s, it_e = s + len, it_chomp = increment atom,
                    it_tabsize = 8, it_single_line = False, it_dangling_end_quote = False,
                    it_empty = False, it_current = False, it_done = False,
                    it_li = (\<lambda>_. li_zero), it_alloc = 0, it_read = 0, it_chunks = [],
                    it_unget_c = 0, it_mem = mem \<rparr>;
          li1 = (fy_atom_iter_line_analyze iter0 li_zero s (int len))\<lparr>li_first := True\<rparr>
      in iter0\<lparr> it_li := (it_li iter0)(True := li1),
                it_dangling_end_quote := (column (end_mark atom) = 0),
                it_single_line := (line (start_mark atom) = line (end_mark atom)),
                it_empty := a_empty atom,
                it_current := False,
                it_alloc := NR_STARTUP_CHUNKS,
                it_read := 0,
                it_chunks := [],
                it_done := False,
                it_unget_c := - 1 \<rparr>)"

section \<open>Lines and the formatter (\<^verbatim>\<open>fy-atom.c\<close>)\<close>

text \<open>
  Comparisons of pointers that may be \<^verbatim>\<open>NULL\<close>: the input buffer lies at a non-null
  address, so \<^verbatim>\<open>NULL\<close> is below every pointer into it.
\<close>

definition ptr_ge :: "nat option \<Rightarrow> nat option \<Rightarrow> bool" where
  "ptr_ge p q = (case q of None \<Rightarrow> True | Some y \<Rightarrow> (case p of None \<Rightarrow> False | Some x \<Rightarrow> x \<ge> y))"

definition ptr_gt :: "nat option \<Rightarrow> nat option \<Rightarrow> bool" where
  "ptr_gt p q = (case p of None \<Rightarrow> False | Some x \<Rightarrow> (case q of None \<Rightarrow> True | Some y \<Rightarrow> x > y))"

definition ptr_lt :: "nat option \<Rightarrow> nat option \<Rightarrow> bool" where
  "ptr_lt p q = ptr_gt q p"

text \<open>
  \<^verbatim>\<open>fy_atom_iter_line(iter)\<close>. The result is \<open>None\<close> when the call dereferences a null
  pointer (\<^verbatim>\<open>li->end[0]\<close> of a slot that was never analysed); otherwise the flag says
  whether the returned pointer is non-null, in which case it points to the slot
  \<^verbatim>\<open>li[current]\<close> of the iterator returned.
\<close>

definition fy_atom_iter_line :: "fy_atom_iter \<Rightarrow> (bool \<times> fy_atom_iter) option" where
  "fy_atom_iter_line iter0 =
     (let atom = it_atom iter0;
          buf = fyi atom;
          iter = iter0\<lparr>it_current := \<not> it_current iter0\<rparr>;
          cur = it_current iter;
          li = it_li iter cur
      in if ptr_ge (li_start li) (Some (it_e iter)) then Some (False, iter)
         else (case li_end li of
           None \<Rightarrow> None
         | Some en \<Rightarrow>
             let ss = en + nat (fy_utf8_width_by_first_octet (byte_at buf en));
                 nl = fy_atom_iter_line_analyze iter (it_li iter (\<not> cur)) ss
                        (int (it_e iter) - int ss);
                 nli = (if ptr_ge (li_start nl) (Some (it_e iter)) then None else Some nl);
                 collapse = (li_empty li \<and> li_first li \<and> li_last li \<and> \<not> it_single_line iter);
                 (s0, e0) =
                   (if style atom = FYAS_SINGLE_QUOTED \<or> style atom = FYAS_DOUBLE_QUOTED then
                      let e1 = (if li_last li then li_end li else li_nws_end li);
                          s1 = (if li_first li then li_start li else li_nws_start li)
                      in (if collapse then e1 else s1, e1)
                    else if style atom = FYAS_LITERAL \<or> style atom = FYAS_FOLDED then
                      (if collapse then li_end li else li_chomp_start li, li_end li)
                    else (li_nws_start li, li_nws_end li));
                 s2 = (if ptr_gt s0 e0 then e0 else s0);
                 (need_nl, need_sep) =
                   (case style atom of
                      FYAS_PLAIN \<Rightarrow>
                        (let nn = (\<not> li_last li \<and> li_empty li)
                         in (nn, \<not> nn \<and> (case nli of None \<Rightarrow> False | Some n \<Rightarrow> \<not> li_empty n)))
                    | FYAS_URI \<Rightarrow>
                        (let nn = (\<not> li_last li \<and> li_empty li)
                         in (nn, \<not> nn \<and> (case nli of None \<Rightarrow> False | Some n \<Rightarrow> \<not> li_empty n)))
                    | FYAS_DOUBLE_QUOTED_MANUAL \<Rightarrow>
                        (let nn = (\<not> li_last li \<and> li_empty li)
                         in (nn, \<not> nn \<and> (case nli of None \<Rightarrow> False | Some n \<Rightarrow> \<not> li_empty n)))
                    | FYAS_COMMENT \<Rightarrow> (\<not> li_final li, False)
                    | FYAS_LITERAL \<Rightarrow> (True, False)
                    | FYAS_FOLDED \<Rightarrow>
                        (let nn = (\<not> li_last li \<and>
                                   (li_empty li \<or> li_indented li \<or> li_trailing_breaks_ws li \<or>
                                    (case nli of None \<Rightarrow> False | Some n \<Rightarrow> li_indented n)))
                         in if nn then (True, False)
                            else (False, (case nli of None \<Rightarrow> False
                                          | Some n \<Rightarrow> \<not> li_indented n \<and> \<not> li_empty n)))
                    | _ \<Rightarrow>
                        (let nn = ((\<not> li_last li \<and> \<not> li_first li \<and> li_empty li) \<or>
                                   (nli \<noteq> None \<and> it_empty iter \<and> \<not> li_first li))
                         in if nn then (True, False)
                            else
                              let ns = ((case nli of None \<Rightarrow> False | Some n \<Rightarrow> \<not> li_empty n) \<or>
                                        (nli = None \<and> li_last li \<and> it_dangling_end_quote iter) \<or>
                                        (case nli of None \<Rightarrow> False
                                         | Some n \<Rightarrow> li_final n \<and> li_empty n))
                              in (False,
                                  if style atom = FYAS_DOUBLE_QUOTED \<and> ns \<and>
                                     ptr_gt (li_nws_end li) (li_nws_start li) \<and>
                                     byte_at buf (the (li_nws_end li) - 1) = 0x5c
                                  then False else ns)));
                 li' = li\<lparr>li_s := s2, li_e := e0, li_need_nl := need_nl, li_need_sep := need_sep\<rparr>
             in Some (True, iter\<lparr>it_li := (it_li iter)(\<not> cur := nl, cur := li')\<rparr>)))"

subsection \<open>The per-style loops of \<^verbatim>\<open>fy_atom_iter_format\<close>\<close>

text \<open>
  Each loop works on the slice \<^verbatim>\<open>[s, e)\<close> of the current line and returns the value of
  \<^verbatim>\<open>ret\<close> with which the \<^verbatim>\<open>switch\<close> is left (\<open>0\<close> when it is left by \<^verbatim>\<open>break\<close>, the error
  when it is left by \<^verbatim>\<open>goto out\<close>) and the iterator.
\<close>

lemma memchr_bounds: "memchr buf s ch n = Some t \<Longrightarrow> s \<le> t \<and> t < s + n"
  unfolding memchr_def by (auto simp add: find_Some_iff)

function format_single_quoted :: "byte list \<Rightarrow> nat \<Rightarrow> fy_atom_iter \<Rightarrow> nat \<Rightarrow> int \<times> fy_atom_iter" where
  "format_single_quoted buf e iter s =
     (if s < e then
        let t = memchr buf s 0x27 (e - s);
            rlen = (case t of None \<Rightarrow> e | Some t' \<Rightarrow> t') - s;
            (ret, iter1) = fy_atom_iter_add_chunk iter (mem_slice buf s rlen)
        in if ret \<noteq> 0 then (ret, iter1)
           else (case t of
                   None \<Rightarrow> (0, iter1)
                 | Some t' \<Rightarrow>
                     let iter2 = (if e - t' \<ge> 2 \<and> byte_at buf (t' + 1) = 0x27
                                  then snd (fy_atom_iter_add_chunk iter1 (mem_slice buf t' 1))
                                  else iter1)
                     in format_single_quoted buf e iter2 (t' + 1))
      else (0, iter))"
  by pat_completeness auto
termination
proof (relation "measure (\<lambda>(buf, e, iter, s). e - s)", goal_cases)
  case 1
  show ?case by simp
next
  case (2 buf e iter s x xa xb xaa y x2 xc)
  then have "memchr buf s 0x27 (e - s) = Some x2" by simp
  from memchr_bounds [OF this] 2(1) show ?case by (simp, arith)
qed

lemma fy_utf8_parse_escape_advances:
  "fy_utf8_parse_escape buf t len = Some (v, t') \<Longrightarrow> t < t'"
  by (auto simp add: fy_utf8_parse_escape_def Let_def split: if_splits option.splits)

function format_double_quoted :: "byte list \<Rightarrow> nat \<Rightarrow> fy_atom_iter \<Rightarrow> nat \<Rightarrow> int \<times> fy_atom_iter" where
  "format_double_quoted buf e iter s =
     (if s < e then
        let t = memchr buf s 0x5c (e - s);
            rlen = (case t of None \<Rightarrow> e | Some t' \<Rightarrow> t') - s;
            (ret, iter1) = fy_atom_iter_add_chunk iter (mem_slice buf s rlen)
        in if ret \<noteq> 0 then (ret, iter1)
           else (case t of
                   None \<Rightarrow> (0, iter1)
                 | Some t' \<Rightarrow>
                     if e - t' < 2 then (0, iter1)
                     else (case fy_utf8_parse_escape buf t' (e - t') of
                             None \<Rightarrow> (- 1, iter1)
                           | Some (v, t'') \<Rightarrow>
                               (case fy_utf8_put 4 v of
                                  None \<Rightarrow> (- 1, iter1)
                                | Some code \<Rightarrow>
                                    let (ret2, iter2) = fy_atom_iter_add_chunk_copy iter1 code
                                    in if ret2 \<noteq> 0 then (ret2, iter2)
                                       else format_double_quoted buf e iter2 t'')))
      else (0, iter))"
  by pat_completeness auto
termination
proof (relation "measure (\<lambda>(buf, e, iter, s). e - s)", goal_cases)
  case 1
  show ?case by simp
next
  case (2 buf e iter s x xa xb xaa y x2 x2a xc ya x2b xd xe yb)
  then have m: "memchr buf s 0x5c (e - s) = Some x2" by simp
  from 2 have "fy_utf8_parse_escape buf x2 (e - x2) = Some (xc, ya)" by simp
  from fy_utf8_parse_escape_advances [OF this] memchr_bounds [OF m] 2(1) show ?case by (simp, arith)
qed

lemma fy_uri_esc_advances: "fy_uri_esc buf s len = Some (code, t) \<Longrightarrow> s < t"
  by (auto simp add: fy_uri_esc_def Let_def split: if_splits option.splits)

function format_uri :: "byte list \<Rightarrow> nat \<Rightarrow> fy_atom_iter \<Rightarrow> nat \<Rightarrow> int \<times> fy_atom_iter" where
  "format_uri buf e iter s =
     (if s < e then
        let t = memchr buf s 0x25 (e - s);
            rlen = (case t of None \<Rightarrow> e | Some t' \<Rightarrow> t') - s;
            (ret, iter1) = fy_atom_iter_add_chunk iter (mem_slice buf s rlen)
        in if ret \<noteq> 0 then (ret, iter1)
           else (case t of
                   None \<Rightarrow> (0, iter1)
                 | Some t' \<Rightarrow>
                     (case fy_uri_esc buf t' (e - t') of
                        None \<Rightarrow> (- 1, iter1)
                      | Some (code, t'') \<Rightarrow>
                          let (ret2, iter2) = fy_atom_iter_add_chunk_copy iter1 code
                          in if ret2 \<noteq> 0 then (ret2, iter2)
                             else format_uri buf e iter2 t''))
      else (0, iter))"
  by pat_completeness auto
termination
proof (relation "measure (\<lambda>(buf, e, iter, s). e - s)", goal_cases)
  case 1
  show ?case by simp
next
  case (2 buf e iter s x xa xb xaa y x2 x2a xc ya xd xe yb)
  then have m: "memchr buf s 0x25 (e - s) = Some x2" by simp
  from 2 have "fy_uri_esc buf x2 (e - x2) = Some (xc, ya)" by simp
  from fy_uri_esc_advances [OF this] memchr_bounds [OF m] 2(1) show ?case by (simp, arith)
qed

text \<open>\<^verbatim>\<open>snprintf\<close> with \<^verbatim>\<open>%02x\<close>, \<^verbatim>\<open>%04x\<close> or \<^verbatim>\<open>%08x\<close>: \<open>k\<close> lower-case hexadecimal digits.\<close>

definition hexdigit :: "int \<Rightarrow> byte" where
  "hexdigit d = (if d < 10 then word_of_int (0x30 + d) else word_of_int (0x61 + d - 10))"

definition hex_digits :: "nat \<Rightarrow> int \<Rightarrow> byte list" where
  "hex_digits k c = map (\<lambda>i. hexdigit ((c div 16 ^ i) mod 16)) (rev [0..<k])"

text \<open>The \<^verbatim>\<open>switch (c)\<close> of the double-quoted-manual style: what follows the backslash.\<close>

definition manual_escape :: "int \<Rightarrow> byte list" where
  "manual_escape c =
     (if c = 0x5c then [0x5c]
      else if c = 0x22 then [0x22]
      else if c = 0x00 then [0x30]
      else if c = 0x07 then [0x61]
      else if c = 0x08 then [0x62]
      else if c = 0x09 then [0x74]
      else if c = 0x0a then [0x6e]
      else if c = 0x0b then [0x76]
      else if c = 0x0c then [0x66]
      else if c = 0x0d then [0x72]
      else if c = 0x1b then [0x65]
      else if c = 0x85 then [0x4e]
      else if c = 0xa0 then [0x5f]
      else if c = 0x2028 then [0x4c]
      else if c = 0x2029 then [0x50]
      else if c \<le> 0xff then 0x78 # hex_digits 2 (c AND 0xff)
      else if c \<le> 0xffff then 0x78 # hex_digits 4 (c AND 0xffff)
      else 0x55 # hex_digits 8 (c AND 0xffffffff))"

function format_double_quoted_manual ::
  "byte list \<Rightarrow> nat \<Rightarrow> fy_atom_iter \<Rightarrow> nat \<Rightarrow> int \<times> fy_atom_iter" where
  "format_double_quoted_manual buf e iter s =
     (let (c, w) = fy_utf8_get (drop s buf) (int e - int s) in
      if c \<noteq> - 1 then
        if c \<noteq> 0x22 \<and> c \<noteq> 0x5c \<and> fy_is_print c then
          let (ret, iter1) = fy_atom_iter_add_chunk iter (mem_slice buf s (nat w))
          in if ret \<noteq> 0 then (ret, iter1)
             else format_double_quoted_manual buf e iter1 (s + nat w)
        else
          let (ret, iter1) = fy_atom_iter_add_chunk iter [0x5c]
          in if ret \<noteq> 0 then (ret, iter1)
             else
               let (ret2, iter2) =
                     (if c = 0x5c \<or> c = 0x22 \<or> c = 0x00 \<or> c = 0x07 \<or> c = 0x08 \<or> c = 0x09 \<or>
                         c = 0x0a \<or> c = 0x0b \<or> c = 0x0c \<or> c = 0x0d \<or> c = 0x1b \<or> c = 0x85 \<or>
                         c = 0xa0 \<or> c = 0x2028 \<or> c = 0x2029
                      then fy_atom_iter_add_chunk iter1 (manual_escape c)
                      else fy_atom_iter_add_chunk_copy iter1 (manual_escape c))
               in if ret2 \<noteq> 0 then (ret2, iter2)
                  else format_double_quoted_manual buf e iter2 (s + nat w)
      else (0, iter))"
  by pat_completeness auto
termination
proof (relation "measure (\<lambda>(buf, e, iter, s). e - s)")
  show "wf (measure (\<lambda>(buf, e, iter, s). e - s))" by simp
next
  fix buf :: "byte list" and e s :: nat and x :: "int \<times> int" and c w :: int
  assume "x = fy_utf8_get (drop s buf) (int e - int s)" "(c, w) = x" "c \<noteq> - 1"
  then have b: "1 \<le> w \<and> w \<le> int e - int s"
    using fy_utf8_get_bounds [of "drop s buf" "int e - int s" c w] by simp
  from b show "\<And>iter1. ((buf, e, iter1, s + nat w), (buf, e, iter, s))
      \<in> measure (\<lambda>(buf, e, iter, s). e - s)" for iter
    by (simp, arith)
  from b show "\<And>iter2. ((buf, e, iter2, s + nat w), (buf, e, iter, s))
      \<in> measure (\<lambda>(buf, e, iter, s). e - s)" for iter
    by (simp, arith)
qed

subsection \<open>Chomping and \<^verbatim>\<open>fy_atom_iter_format\<close>\<close>

text \<open>
  \<^verbatim>\<open>while (pending_nl > 0) { add "\n"; pending_nl--; }\<close>: the result carries the value of
  \<^verbatim>\<open>ret\<close> and what is left of \<^verbatim>\<open>pending_nl\<close>.
\<close>

fun add_newlines :: "nat \<Rightarrow> fy_atom_iter \<Rightarrow> int \<times> fy_atom_iter \<times> nat" where
  "add_newlines 0 iter = (0, iter, 0)"
| "add_newlines (Suc n) iter =
     (let (ret, iter1) = fy_atom_iter_add_chunk iter [0x0a]
      in if ret \<noteq> 0 then (ret, iter1, Suc n) else add_newlines n iter1)"

text \<open>
  The \<^verbatim>\<open>while ((li = fy_atom_iter_line(iter)) != NULL)\<close> loops of the chomping stage. They
  end when \<^verbatim>\<open>fy_atom_iter_line\<close> returns \<^verbatim>\<open>NULL\<close>, which depends on the line slots of the
  iterator: a loop that does not end, like a null dereference, is the value \<open>None\<close>.
  The result carries \<^verbatim>\<open>ret\<close> (\<open>0\<close> when the loop ran to its end).
\<close>

partial_function (option) chomp_strip_clip_loop ::
  "fy_atom_iter \<Rightarrow> nat \<Rightarrow> (int \<times> fy_atom_iter \<times> nat) option" where
  "chomp_strip_clip_loop iter pending_nl =
     (case fy_atom_iter_line iter of
        None \<Rightarrow> None
      | Some (r, iter1) \<Rightarrow>
          if \<not> r then Some (0, iter1, pending_nl)
          else
            let li = it_li iter1 (it_current iter1) in
            if \<not> it_empty iter1 \<and> ptr_lt (li_chomp_start li) (li_end li) then
              (case (li_chomp_start li, li_end li) of
                 (Some cs, Some en) \<Rightarrow>
                   (case add_newlines pending_nl iter1 of
                      (ret, iter2, p2) \<Rightarrow>
                        if ret \<noteq> 0 then Some (ret, iter2, p2)
                        else (case fy_atom_iter_add_chunk iter2
                                     (mem_slice (fyi (it_atom iter2)) cs (en - cs)) of
                                (ret3, iter3) \<Rightarrow>
                                  if ret3 \<noteq> 0 then Some (ret3, iter3, p2)
                                  else chomp_strip_clip_loop iter3
                                         (if li_lb_end li \<and> \<not> it_empty iter3 then p2 + 1 else p2)))
               | _ \<Rightarrow> None)
            else chomp_strip_clip_loop iter1
                   (if li_lb_end li \<and> \<not> it_empty iter1 then pending_nl + 1 else pending_nl))"

declare chomp_strip_clip_loop.simps [code]

partial_function (option) chomp_keep_loop :: "fy_atom_iter \<Rightarrow> (int \<times> fy_atom_iter) option" where
  "chomp_keep_loop iter =
     (case fy_atom_iter_line iter of
        None \<Rightarrow> None
      | Some (r, iter1) \<Rightarrow>
          if \<not> r then Some (0, iter1)
          else
            let li = it_li iter1 (it_current iter1) in
            (case (if \<not> it_empty iter1 \<and> ptr_lt (li_chomp_start li) (li_end li) then
                     (case (li_chomp_start li, li_end li) of
                        (Some cs, Some en) \<Rightarrow>
                          Some (fy_atom_iter_add_chunk iter1
                                  (mem_slice (fyi (it_atom iter1)) cs (en - cs)))
                      | _ \<Rightarrow> None)
                   else Some (0, iter1)) of
               None \<Rightarrow> None
             | Some (ret, iter2) \<Rightarrow>
                 if ret \<noteq> 0 then Some (ret, iter2)
                 else if li_lb_end li then
                   (case fy_atom_iter_add_chunk iter2 [0x0a] of
                      (ret3, iter3) \<Rightarrow>
                        if ret3 \<noteq> 0 then Some (ret3, iter3) else chomp_keep_loop iter3)
                 else chomp_keep_loop iter2))"

declare chomp_keep_loop.simps [code]

text \<open>
  The chomping stage, entered with the last content line in \<open>li\<close>: the value of \<^verbatim>\<open>ret\<close>
  (\<open>0\<close> when no call failed) and the iterator, with \<^verbatim>\<open>done\<close> set when the stage ran to
  its end.
\<close>

definition format_chomp ::
  "fy_atom_iter \<Rightarrow> fy_atom_iter_line_info \<Rightarrow> (int \<times> fy_atom_iter) option" where
  "format_chomp iter li =
     (case a_chomp (it_atom iter) of
        FYAC_KEEP \<Rightarrow>
          (case (if li_lb_end li then fy_atom_iter_add_chunk iter [0x0a] else (0, iter)) of
             (ret, iter1) \<Rightarrow>
               if ret \<noteq> 0 then Some (ret, iter1)
               else (case chomp_keep_loop iter1 of
                       None \<Rightarrow> None
                     | Some (ret2, iter2) \<Rightarrow>
                         if ret2 \<noteq> 0 then Some (ret2, iter2)
                         else Some (0, iter2\<lparr>it_done := True\<rparr>)))
      | _ \<Rightarrow>
          (case chomp_strip_clip_loop iter (if \<not> li_empty li then 1 else 0) of
             None \<Rightarrow> None
           | Some (ret, iter1, pending_nl) \<Rightarrow>
               if ret \<noteq> 0 then Some (ret, iter1)
               else if a_chomp (it_atom iter) = FYAC_CLIP \<and> pending_nl \<noteq> 0 then
                 (case fy_atom_iter_add_chunk iter1 [0x0a] of
                    (ret2, iter2) \<Rightarrow>
                      if ret2 \<noteq> 0 then Some (ret2, iter2)
                      else Some (0, iter2\<lparr>it_done := True\<rparr>))
               else Some (0, iter1\<lparr>it_done := True\<rparr>)))"

text \<open>The \<^verbatim>\<open>switch (atom->style)\<close> of \<^verbatim>\<open>fy_atom_iter_format\<close> on the slice \<^verbatim>\<open>[s, e)\<close>.\<close>

definition format_line :: "fy_atom_iter \<Rightarrow> nat \<Rightarrow> nat \<Rightarrow> int \<times> fy_atom_iter" where
  "format_line iter s e =
     (let buf = fyi (it_atom iter) in
      case style (it_atom iter) of
        FYAS_SINGLE_QUOTED \<Rightarrow> format_single_quoted buf e iter s
      | FYAS_DOUBLE_QUOTED \<Rightarrow> format_double_quoted buf e iter s
      | FYAS_URI \<Rightarrow> format_uri buf e iter s
      | FYAS_DOUBLE_QUOTED_MANUAL \<Rightarrow> format_double_quoted_manual buf e iter s
      | _ \<Rightarrow> fy_atom_iter_add_chunk iter (mem_slice buf s (e - s)))"

text \<open>
  \<^verbatim>\<open>fy_atom_iter_format(iter)\<close>: the returned \<^verbatim>\<open>int\<close> (\<open>1\<close>: got more, \<open>0\<close>: done, negative:
  error) and the iterator.
\<close>

definition fy_atom_iter_format :: "fy_atom_iter \<Rightarrow> (int \<times> fy_atom_iter) option" where
  "fy_atom_iter_format iter0 =
     (case fy_atom_iter_line iter0 of
        None \<Rightarrow> None
      | Some (r, iter) \<Rightarrow>
          if \<not> r then Some (0, iter\<lparr>it_done := True\<rparr>)
          else if it_done iter then Some (0, iter)
          else
            let li = it_li iter (it_current iter) in
            (case (li_s li, li_e li) of
               (Some s, Some e) \<Rightarrow>
                 (case format_line iter s e of
                    (ret, iter1) \<Rightarrow>
                      if ret \<noteq> 0 then Some (ret, iter1)
                      else if li_last li \<and> fy_atom_style_is_block (style (it_atom iter1)) then
                        (case format_chomp iter1 li of
                           None \<Rightarrow> None
                         | Some (ret2, iter2) \<Rightarrow>
                             if ret2 \<noteq> 0 then Some (ret2, iter2) else Some (1, iter2))
                      else
                        (case (if li_need_sep li then fy_atom_iter_add_chunk iter1 [0x20]
                               else (0, iter1)) of
                           (ret2, iter2) \<Rightarrow>
                             if ret2 \<noteq> 0 then Some (ret2, iter2)
                             else (case (if li_need_nl li then fy_atom_iter_add_chunk iter2 [0x0a]
                                         else (0, iter2)) of
                                     (ret3, iter3) \<Rightarrow>
                                       if ret3 \<noteq> 0 then Some (ret3, iter3)
                                       else Some (1, iter3))))
             | _ \<Rightarrow> None))"

section \<open>Reading an iterator (\<^verbatim>\<open>fy-atom.c\<close>)\<close>

text \<open>
  \<^verbatim>\<open>fy_atom_iter_peek_chunk(iter)\<close>: a pointer to a chunk is its index in the chunk array,
  \<open>None\<close> is \<^verbatim>\<open>NULL\<close>.
\<close>

definition fy_atom_iter_peek_chunk :: "fy_atom_iter \<Rightarrow> nat option" where
  "fy_atom_iter_peek_chunk iter =
     (if it_read iter \<ge> it_top iter then None else Some (it_read iter))"

function advance_loop :: "fy_atom_iter \<Rightarrow> nat \<Rightarrow> fy_atom_iter" where
  "advance_loop iter len =
     (if len > 0 \<and> it_read iter < it_top iter then
        let ac = it_chunks iter ! it_read iter;
            rlen = (if len > length ac then length ac else len);
            ac' = drop rlen ac;
            iter1 = iter\<lparr>it_chunks := (it_chunks iter)[it_read iter := ac']\<rparr>;
            iter2 = (if ac' = [] then iter1\<lparr>it_read := it_read iter1 + 1\<rparr> else iter1)
        in advance_loop iter2 (len - rlen)
      else iter)"
  by pat_completeness auto
termination
  by (relation "measure (\<lambda>(iter, len). len + (it_top iter - it_read iter))")
    (auto split: if_splits)

definition fy_atom_iter_advance :: "fy_atom_iter \<Rightarrow> nat \<Rightarrow> fy_atom_iter" where
  "fy_atom_iter_advance iter len =
     (let iter1 = advance_loop iter len
      in if it_read iter1 \<ge> it_top iter1 then fy_atom_iter_chunk_reset iter1 else iter1)"

text \<open>
  The loop \<^verbatim>\<open>do { ret = fy_atom_iter_format(iter); if (ret <= 0) ...; } while
  (!fy_atom_iter_peek_chunk(iter))\<close> of \<^verbatim>\<open>fy_atom_iter_chunk_next\<close> and of
  \<^verbatim>\<open>fy_atom_iter_read\<close>: the last \<^verbatim>\<open>ret\<close> and the iterator.
\<close>

partial_function (option) format_until_chunk :: "fy_atom_iter \<Rightarrow> (int \<times> fy_atom_iter) option" where
  "format_until_chunk iter =
     (case fy_atom_iter_format iter of
        None \<Rightarrow> None
      | Some (ret, iter1) \<Rightarrow>
          if ret \<le> 0 then Some (ret, iter1)
          else if fy_atom_iter_peek_chunk iter1 = None then format_until_chunk iter1
          else Some (ret, iter1))"

declare format_until_chunk.simps [code]

text \<open>
  \<^verbatim>\<open>fy_atom_iter_chunk_next(iter, curr, &err)\<close> with \<open>currp\<close> for \<^verbatim>\<open>curr\<close>: the returned chunk pointer, the value
  stored in \<^verbatim>\<open>err\<close> and the iterator.
\<close>

definition fy_atom_iter_chunk_next ::
  "fy_atom_iter \<Rightarrow> nat option \<Rightarrow> (nat option \<times> int \<times> fy_atom_iter) option" where
  "fy_atom_iter_chunk_next iter currp =
     (let ic = fy_atom_iter_peek_chunk iter;
          iter1 = (case ic of
                     Some i \<Rightarrow> if currp = Some i
                               then fy_atom_iter_advance iter (length (it_chunks iter ! i))
                               else iter
                   | None \<Rightarrow> iter);
          ic1 = fy_atom_iter_peek_chunk iter1
      in if currp = None \<or> ic1 = None then
           (case format_until_chunk (fy_atom_iter_chunk_reset iter1) of
              None \<Rightarrow> None
            | Some (ret, iter2) \<Rightarrow>
                if ret \<le> 0 then Some (None, if ret < 0 then - 1 else 0, iter2)
                else Some (fy_atom_iter_peek_chunk iter2, 0, iter2))
         else Some (ic1, 0, iter1))"

text \<open>
  \<^verbatim>\<open>fy_atom_iter_read(iter, buf, count)\<close>: \<open>buf\<close> is the content of the destination
  before the call; the result is the returned count, the content of the destination
  after the call and the iterator. Every \<^verbatim>\<open>memcpy(buf, ic->str, nrun)\<close> of the loop
  stores at \<^verbatim>\<open>buf\<close>: the C code does not move \<^verbatim>\<open>buf\<close> forward.
\<close>

partial_function (option) read_loop ::
  "fy_atom_iter \<Rightarrow> byte list \<Rightarrow> nat \<Rightarrow> int \<Rightarrow> (int \<times> byte list \<times> fy_atom_iter) option" where
  "read_loop iter buf count nread =
     (if count > 0 then
        (case fy_atom_iter_peek_chunk iter of
           Some i \<Rightarrow>
             let ic = it_chunks iter ! i;
                 nrun = (if count > length ic then length ic else count)
             in read_loop (fy_atom_iter_advance iter nrun) (take nrun ic @ drop nrun buf)
                  (count - nrun) (nread + int nrun)
         | None \<Rightarrow>
             (case format_until_chunk (fy_atom_iter_chunk_reset iter) of
                None \<Rightarrow> None
              | Some (ret, iter1) \<Rightarrow>
                  if ret \<le> 0 then Some (if ret = 0 then nread else - 1, buf, iter1)
                  else read_loop iter1 buf count nread))
      else Some (nread, buf, iter))"

declare read_loop.simps [code]

definition fy_atom_iter_read ::
  "fy_atom_iter \<Rightarrow> byte list \<Rightarrow> nat \<Rightarrow> (int \<times> byte list \<times> fy_atom_iter) option" where
  "fy_atom_iter_read iter buf count = read_loop iter buf count 0"

definition fy_atom_iter_getc :: "fy_atom_iter \<Rightarrow> (int \<times> fy_atom_iter) option" where
  "fy_atom_iter_getc iter =
     (if it_unget_c iter \<noteq> - 1
      then Some (it_unget_c iter AND 0xff, iter\<lparr>it_unget_c := - 1\<rparr>)
      else (case fy_atom_iter_read iter [0] 1 of
              None \<Rightarrow> None
            | Some (nread, buf, iter1) \<Rightarrow>
                if nread \<noteq> 1 then Some (- 1, iter1)
                else Some (uint (byte_at buf 0) AND 0xff, iter1)))"

definition fy_atom_iter_ungetc :: "fy_atom_iter \<Rightarrow> int \<Rightarrow> int \<times> fy_atom_iter" where
  "fy_atom_iter_ungetc iter c =
     (if it_unget_c iter \<noteq> - 1 then (- 1, iter)
      else if c = - 1 then (0, iter\<lparr>it_unget_c := - 1\<rparr>)
      else (c AND 0xff, iter\<lparr>it_unget_c := c AND 0xff\<rparr>))"


section \<open>Materializing, comparing and analysing atoms (\<^verbatim>\<open>fy-atom.c\<close>)\<close>

text \<open>
  Every function that starts an iterator takes \<open>mem\<close>, the number of chunk slots up to
  which \<^verbatim>\<open>realloc\<close> succeeds during the call. An atom pointer that may be \<^verbatim>\<open>NULL\<close> is a
  \<open>fy_atom option\<close>. The outer \<open>option\<close> of a result is \<open>None\<close> when the call does not
  return (a null dereference, or a loop that does not end).
\<close>





text \<open>
  The loop of \<^verbatim>\<open>fy_atom_format_text\<close>: \<open>out\<close> is what has been copied so far and \<open>left\<close>
  is \<^verbatim>\<open>oe - buf\<close>. The result is \<open>None\<close> inside when the loop returns \<^verbatim>\<open>NULL\<close> (a chunk
  does not fit), else the bytes copied and the final \<^verbatim>\<open>ret\<close>.
\<close>

partial_function (option) format_text_loop ::
  "fy_atom_iter \<Rightarrow> nat option \<Rightarrow> byte list \<Rightarrow> nat \<Rightarrow> ((byte list \<times> int) option) option" where
  "format_text_loop iter ic out left =
     (case fy_atom_iter_chunk_next iter ic of
        None \<Rightarrow> None
      | Some (None, ret, iter1) \<Rightarrow> Some (Some (out, ret))
      | Some (Some i, ret, iter1) \<Rightarrow>
          let chunk = it_chunks iter1 ! i in
          if left < length chunk then Some None
          else format_text_loop iter1 (Some i) (out @ chunk) (left - length chunk))"

declare format_text_loop.simps [code]

text \<open>
  \<^verbatim>\<open>fy_atom_format_text(atom, buf, maxsz)\<close>: \<open>buf_null\<close> says that \<^verbatim>\<open>buf\<close> is \<^verbatim>\<open>NULL\<close>. The
  inner result is \<open>None\<close> for a \<^verbatim>\<open>NULL\<close> return, else the bytes stored from \<^verbatim>\<open>buf\<close> up to
  the returned pointer.
\<close>

definition fy_atom_format_text ::
  "nat \<Rightarrow> fy_atom option \<Rightarrow> bool \<Rightarrow> nat \<Rightarrow> (byte list option) option" where
  "fy_atom_format_text mem atomp buf_null maxsz =
     (case atomp of
        None \<Rightarrow> Some None
      | Some atom \<Rightarrow>
          if buf_null then Some None
          else (case format_text_loop (fy_atom_iter_start mem atom) None [] maxsz of
                  None \<Rightarrow> None
                | Some None \<Rightarrow> Some None
                | Some (Some (out, ret)) \<Rightarrow> if ret \<noteq> 0 then Some None else Some (Some out)))"

text \<open>
  \<^verbatim>\<open>memcmp(p, q, n)\<close> on the first \<open>n\<close> bytes of two memory regions. C fixes only the
  sign of the result; here it is the difference of the first two bytes that differ.
\<close>

fun memcmp :: "byte list \<Rightarrow> byte list \<Rightarrow> nat \<Rightarrow> int" where
  "memcmp p q 0 = 0"
| "memcmp p q (Suc n) =
     (if byte_at p 0 = byte_at q 0 then memcmp (tl p) (tl q) n
      else uint (byte_at p 0) - uint (byte_at q 0))"

text \<open>
  The loop \<^verbatim>\<open>while ((c = fy_atom_iter_getc(&iter)) >= 0 && len) { ... }\<close> of
  \<^verbatim>\<open>fy_atom_memcmp\<close>: the final \<^verbatim>\<open>c\<close>, \<^verbatim>\<open>ct\<close> and \<^verbatim>\<open>len\<close>; \<open>str\<close> is the memory from \<^verbatim>\<open>str\<close>
  on.
\<close>

partial_function (option) memcmp_loop ::
  "fy_atom_iter \<Rightarrow> byte list \<Rightarrow> nat \<Rightarrow> int \<Rightarrow> (int \<times> int \<times> nat) option" where
  "memcmp_loop iter str len ct =
     (case fy_atom_iter_getc iter of
        None \<Rightarrow> None
      | Some (c, iter1) \<Rightarrow>
          if c \<ge> 0 \<and> len \<noteq> 0 then
            let ct1 = uint (byte_at str 0) AND 0xff in
            if ct1 \<noteq> c then Some (c, ct1, len)
            else memcmp_loop iter1 (tl str) (len - 1) ct1
          else Some (c, ct, len))"

declare memcmp_loop.simps [code]

text \<open>\<^verbatim>\<open>fy_atom_memcmp(atom, ptr, len)\<close>: \<open>ptr\<close> is \<open>None\<close> for \<^verbatim>\<open>NULL\<close>, else the memory there.\<close>

definition fy_atom_memcmp ::
  "nat \<Rightarrow> fy_atom option \<Rightarrow> byte list option \<Rightarrow> nat \<Rightarrow> int option" where
  "fy_atom_memcmp mem atomp ptr len =
     (case atomp of
        None \<Rightarrow> if ptr = None \<and> len = 0 then Some 0 else Some (- 1)
      | Some atom \<Rightarrow>
          (case ptr of
             None \<Rightarrow> Some 1
           | Some p \<Rightarrow>
               if len = 0 then Some 1
               else if direct_output atom then
                 let dlen = fy_atom_size atom;
                     dstr = drop (fy_atom_data atom) (fyi atom);
                     tlen = (if dlen > len then len else dlen);
                     ret = memcmp dstr p tlen
                 in if ret \<noteq> 0 then Some ret
                    else Some (if dlen = len then 0 else if len > dlen then - 1 else 1)
               else
                 (case memcmp_loop (fy_atom_iter_start mem atom) p len (- 1) of
                    None \<Rightarrow> None
                  | Some (c, ct, len') \<Rightarrow>
                      if c = - 1 \<and> len' = 0 then Some 0
                      else Some (if ct > c then - 1 else 1))))"






text \<open>
  The lockstep loop \<^verbatim>\<open>do { c1 = getc(&iter1); c2 = getc(&iter2); } while (c1 == c2 &&
  c1 >= 0 && c2 >= 0)\<close> of \<^verbatim>\<open>fy_atom_cmp\<close>: the final \<^verbatim>\<open>c1\<close> and \<^verbatim>\<open>c2\<close>.
\<close>

partial_function (option) cmp_loop :: "fy_atom_iter \<Rightarrow> fy_atom_iter \<Rightarrow> (int \<times> int) option" where
  "cmp_loop iter1 iter2 =
     (case fy_atom_iter_getc iter1 of
        None \<Rightarrow> None
      | Some (c1, iter1') \<Rightarrow>
          (case fy_atom_iter_getc iter2 of
             None \<Rightarrow> None
           | Some (c2, iter2') \<Rightarrow>
               if c1 = c2 \<and> c1 \<ge> 0 \<and> c2 \<ge> 0 then cmp_loop iter1' iter2'
               else Some (c1, c2)))"

declare cmp_loop.simps [code]

text \<open>
  \<^verbatim>\<open>fy_atom_cmp(atom1, atom2)\<close>. The function compares the two pointers, so the atoms
  live in a store \<open>h\<close> from addresses to atoms and an atom pointer is an address, or
  \<open>None\<close> for \<^verbatim>\<open>NULL\<close>. The C values \<^verbatim>\<open>true\<close> and \<^verbatim>\<open>false\<close> returned as \<^verbatim>\<open>int\<close> are \<open>1\<close> and
  \<open>0\<close>. The data pointers \<^verbatim>\<open>d1\<close> and \<^verbatim>\<open>d2\<close> are non-null exactly for a direct-output atom.
\<close>

definition fy_atom_cmp ::
  "nat \<Rightarrow> (nat \<rightharpoonup> fy_atom) \<Rightarrow> nat option \<Rightarrow> nat option \<Rightarrow> int option" where
  "fy_atom_cmp mem h atom1 atom2 =
     (if atom1 = atom2 then Some 1
      else (case (atom1, atom2) of
              (Some p1, Some p2) \<Rightarrow>
                (case (h p1, h p2) of
                   (Some a1, Some a2) \<Rightarrow>
                     let l1 = (if direct_output a1 then fy_atom_size a1 else 0);
                         l2 = (if direct_output a2 then fy_atom_size a2 else 0);
                         d1 = drop (fy_atom_data a1) (fyi a1);
                         d2 = drop (fy_atom_data a2) (fyi a2)
                     in if direct_output a1 \<and> direct_output a2 then
                          let l = (if l1 > l2 then l2 else l1);
                              ret = memcmp d1 d2 l
                          in if ret \<noteq> 0 then Some ret
                             else Some (if l1 = l2 then 0 else if l2 > l1 then - 1 else 1)
                        else if direct_output a2 then fy_atom_memcmp mem (Some a1) (Some d2) l2
                        else if direct_output a1 then
                          map_option uminus (fy_atom_memcmp mem (Some a2) (Some d1) l1)
                        else
                          (case cmp_loop (fy_atom_iter_start mem a1) (fy_atom_iter_start mem a2) of
                             None \<Rightarrow> None
                           | Some (c1, c2) \<Rightarrow>
                               if c1 = - 1 \<and> c2 = - 1 then Some 0
                               else Some (if c2 > c1 then - 1 else 1))
                 | _ \<Rightarrow> None)
            | _ \<Rightarrow> Some 0))"


section \<open>Emitter primitives (\<^verbatim>\<open>fy-emit.c\<close>)\<close>

text \<open>
  Modelled from the spec: the public header \<^verbatim>\<open>libfyaml.h\<close> and \<^verbatim>\<open>fy-emit.h\<close>, which declare
  the write-type tags, the mode flags, the node styles and the emitter structure, are
  not among the sources. The write-type tags are those that \<^verbatim>\<open>fy-emit.c\<close> uses (spec,
  section 6); the modes are the six of the configuration surface (section 6); following
  the design notes (section 9) the packed flag word of the configuration is a record of
  named fields.
\<close>

text \<open>A C \<^verbatim>\<open>int\<close>: a 32-bit word, read as a signed number with \<open>sint\<close>.\<close>

type_synonym c_int = "32 word"

datatype fy_emitter_write_type =
  fyewt_document_indicator | fyewt_tag_directive | fyewt_version_directive | fyewt_indent
| fyewt_indicator | fyewt_whitespace | fyewt_plain_scalar | fyewt_single_quoted_scalar
| fyewt_double_quoted_scalar | fyewt_literal_scalar | fyewt_folded_scalar | fyewt_anchor
| fyewt_tag | fyewt_linebreak | fyewt_alias | fyewt_terminating_zero
| fyewt_plain_scalar_key | fyewt_single_quoted_scalar_key | fyewt_double_quoted_scalar_key
| fyewt_comment

datatype fy_emitter_mode =
  FYECF_MODE_BLOCK | FYECF_MODE_FLOW | FYECF_MODE_FLOW_ONELINE
| FYECF_MODE_JSON | FYECF_MODE_JSON_TP | FYECF_MODE_JSON_ONELINE

datatype fy_emitter_mark_policy = MARK_AUTO | MARK_OFF | MARK_ON

datatype fy_emitter_flag =
  FYEF_WHITESPACE | FYEF_INDENTATION | FYEF_OPEN_ENDED
| FYEF_HAD_DOCUMENT_START | FYEF_HAD_DOCUMENT_END | FYEF_HAD_DOCUMENT_OUTPUT

text \<open>
  Modelled from the spec: the node flags \<^verbatim>\<open>DDNF_*\<close>, the event types \<^verbatim>\<open>FYET_*\<close> (section
  4.11) and the comment placements are declared in headers that are not among the
  sources. The emitter states are those of the table \<^verbatim>\<open>fy_emitter_state_txt\<close> of
  \<^verbatim>\<open>fy-emit.c\<close>.
\<close>

datatype fy_node_flag =
  DDNF_ROOT | DDNF_SEQ | DDNF_MAP | DDNF_SIMPLE | DDNF_FLOW | DDNF_INDENTLESS
| DDNF_SIMPLE_SCALAR_KEY

datatype fy_event_type =
  FYET_NONE | FYET_STREAM_START | FYET_STREAM_END | FYET_DOCUMENT_START | FYET_DOCUMENT_END
| FYET_MAPPING_START | FYET_MAPPING_END | FYET_SEQUENCE_START | FYET_SEQUENCE_END
| FYET_SCALAR | FYET_ALIAS

datatype fy_emitter_state =
  FYES_NONE | FYES_STREAM_START | FYES_FIRST_DOCUMENT_START | FYES_DOCUMENT_START
| FYES_DOCUMENT_CONTENT | FYES_DOCUMENT_END | FYES_SEQUENCE_FIRST_ITEM | FYES_SEQUENCE_ITEM
| FYES_MAPPING_FIRST_KEY | FYES_MAPPING_KEY | FYES_MAPPING_SIMPLE_VALUE | FYES_MAPPING_VALUE
| FYES_END

datatype fy_comment_placement = fycp_top | fycp_right | fycp_bottom

text \<open>
  The configuration: the mode, the four directive and marker policies and the
  strip-documents flag of \<^verbatim>\<open>cfg->flags\<close>, and the write callback \<^verbatim>\<open>cfg->output\<close>. The callback
  gets the user data (a state of type \<open>'u\<close>), the write type, the memory at \<^verbatim>\<open>str\<close> and
  \<^verbatim>\<open>len\<close>; it returns the count it accepted and the user data after the call. It does not
  change the emitter.
\<close>

record 'u fy_emitter_cfg =
  cfg_mode :: fy_emitter_mode
  cfg_version_dir :: fy_emitter_mark_policy
  cfg_tag_dir :: fy_emitter_mark_policy
  cfg_doc_start_mark :: fy_emitter_mark_policy
  cfg_doc_end_mark :: fy_emitter_mark_policy
  cfg_strip_doc :: bool
  cfg_output :: "'u \<Rightarrow> fy_emitter_write_type \<Rightarrow> byte list \<Rightarrow> int \<Rightarrow> int \<times> 'u"

text \<open>
  Modelled from the spec: \<^verbatim>\<open>struct fy_document_state\<close>, \<^verbatim>\<open>struct fy_document\<close>,
  \<^verbatim>\<open>struct fy_event\<close> and the tag directive tokens are declared in headers that are not
  among the sources. Here they have the fields that \<^verbatim>\<open>fy-emit.c\<close> reads.
  \<^item> A tag directive is what \<^verbatim>\<open>fy_tag_directive_token_handle\<close>,
    \<^verbatim>\<open>fy_tag_directive_token_prefix\<close> and \<^verbatim>\<open>fy_tag_is_default\<close> return for it.
  \<^item> A document has its state (\<open>None\<close> for \<^verbatim>\<open>NULL\<close>), its root node (of a type \<open>'n\<close>, \<open>None\<close>
    for \<^verbatim>\<open>NULL\<close>), the address it lives at, and what \<^verbatim>\<open>root && (root->tag ||
    fy_document_lookup_anchor_by_node(fyd, root))\<close> evaluates to for it.
  \<^item> An event has its type, the document state of a document start event, and the rest
    of its content, of a type \<open>'x\<close>.
\<close>

record fy_tag_directive =
  td_handle :: "byte list"
  td_prefix :: "byte list"
  td_is_default :: bool

record fy_document_state =
  version_major :: c_int
  version_minor :: c_int
  version_explicit :: bool
  tags_explicit :: bool
  start_implicit :: bool
  end_implicit :: bool
  fyt_td :: "fy_tag_directive list"

record 'n fy_document =
  fyd_addr :: nat
  fyd_fyds :: "fy_document_state option"
  fyd_root :: "'n option"
  fyd_root_tag_or_anchor :: bool

record 'x fy_eventp =
  ev_type :: fy_event_type
  ev_document_state :: "fy_document_state option"
  ev_data :: 'x

text \<open>
  \<^verbatim>\<open>struct fy_emitter\<close>, fields prefixed \<open>em_\<close>: the fields that the functions below read
  or write. \<open>em_userdata\<close> is the state behind \<^verbatim>\<open>cfg->userdata\<close>; \<open>em_fyds\<close> and \<open>em_fyd\<close>
  are the document-state and document pointers (\<open>None\<close> for \<^verbatim>\<open>NULL\<close>). The counters
  \<^verbatim>\<open>line\<close>, \<^verbatim>\<open>column\<close>, \<^verbatim>\<open>flow_level\<close> and \<^verbatim>\<open>s_indent\<close> are C \<^verbatim>\<open>int\<close> fields, whose increment
  wraps around. \<open>em_ea\<close> is the content of the accumulator \<^verbatim>\<open>ea\<close>, \<open>em_queued_events\<close> the
  event queue, first event first; \<open>em_state_stack_top\<close> and \<open>em_sc_stack_top\<close> are the fill
  levels of the two stacks.
\<close>

record ('u, 'x) fy_emitter =
  em_cfg :: "'u fy_emitter_cfg"
  em_userdata :: 'u
  em_line :: c_int
  em_column :: c_int
  em_flow_level :: c_int
  em_flags :: "fy_emitter_flag set"
  em_output_error :: bool
  em_fyds :: "fy_document_state option"
  em_fyd :: "nat option"
  em_state :: fy_emitter_state
  em_ea :: "byte list"
  em_s_indent :: c_int
  em_s_flags :: "fy_node_flag set"
  em_state_stack_top :: nat
  em_sc_stack_top :: nat
  em_queued_events :: "'x fy_eventp list"

definition fy_emit_is_json_mode :: "('u, 'x) fy_emitter \<Rightarrow> bool" where
  "fy_emit_is_json_mode emit \<longleftrightarrow>
     (let flags = cfg_mode (em_cfg emit)
      in flags = FYECF_MODE_JSON \<or> flags = FYECF_MODE_JSON_TP \<or> flags = FYECF_MODE_JSON_ONELINE)"


text \<open>
  The loop of \<^verbatim>\<open>fy_emit_write\<close>: \<open>str\<close> is the memory at the original \<^verbatim>\<open>str\<close>, \<open>e\<close> is
  \<^verbatim>\<open>len\<close> and \<open>p\<close> is how far \<^verbatim>\<open>str\<close> has moved; the result is \<^verbatim>\<open>emit->line\<close> and
  \<^verbatim>\<open>emit->column\<close> when the loop ends. \<^verbatim>\<open>emit->line++\<close> and \<^verbatim>\<open>emit->column++\<close> are
  additions of 32-bit words.
\<close>

function write_loop :: "byte list \<Rightarrow> int \<Rightarrow> nat \<Rightarrow> c_int \<Rightarrow> c_int \<Rightarrow> c_int \<times> c_int" where
  "write_loop str e p ln col =
     (let (c, w) = fy_utf8_get (drop p str) (e - int p) in
      if c = - 1 then (ln, col)
      else if c = 0x0d \<and> e - int p > 1 \<and> byte_at str (p + 1) = 0x0a then
        write_loop str e (p + 2) (ln + 1) 0
      else if fy_is_lb c then write_loop str e (p + nat w) (ln + 1) 0
      else if c = 0x1b \<and> e - int p > 2 \<and> byte_at str (p + 1) = 0x5b then
        (case memchr str p 0x6d (nat (e - int p)) of
           Some m \<Rightarrow> write_loop str e (m + 1) ln col
         | None \<Rightarrow> write_loop str e (p + nat w) ln (col + 1))
      else write_loop str e (p + nat w) ln (col + 1))"
  by pat_completeness auto
termination
proof (relation "measure (\<lambda>(str, e, p, ln, col). nat (e - int p))", goal_cases)
  case 1
  show ?case by simp
next
  case 2
  then show ?case by simp
next
  case (3 str e p ln col x c w)
  then have "1 \<le> w \<and> w \<le> e - int p"
    using fy_utf8_get_bounds [of "drop p str" "e - int p" c w] by simp
  then show ?case by simp
next
  case (4 str e p ln col x c w)
  then have "1 \<le> w \<and> w \<le> e - int p"
    using fy_utf8_get_bounds [of "drop p str" "e - int p" c w] by simp
  then show ?case by simp
next
  case (5 str e p ln col x c w m)
  then have "memchr str p 0x6d (nat (e - int p)) = Some m" by simp
  from memchr_bounds [OF this] 5 show ?case by simp
next
  case (6 str e p ln col x c w)
  then have "1 \<le> w \<and> w \<le> e - int p"
    using fy_utf8_get_bounds [of "drop p str" "e - int p" c w] by simp
  then show ?case by simp
qed

declare write_loop.simps [simp del]

text \<open>\<^verbatim>\<open>fy_emit_write(emit, type, str, len)\<close>: the emitter after the call.\<close>

definition fy_emit_write ::
  "('u, 'x) fy_emitter \<Rightarrow> fy_emitter_write_type \<Rightarrow> byte list \<Rightarrow> int \<Rightarrow> ('u, 'x) fy_emitter" where
  "fy_emit_write emit type str len =
     (if len = 0 then emit
      else
        let (outlen, ud) = cfg_output (em_cfg emit) (em_userdata emit) type str len;
            emit1 = emit\<lparr>em_userdata := ud\<rparr>;
            emit2 = (if outlen \<noteq> len then emit1\<lparr>em_output_error := True\<rparr> else emit1);
            (ln, col) = write_loop str len 0 (em_line emit2) (em_column emit2)
        in emit2\<lparr>em_line := ln, em_column := col\<rparr>)"

text \<open>\<^verbatim>\<open>strlen\<close>, and \<^verbatim>\<open>fy_emit_puts\<close>.\<close>

definition strlen :: "byte list \<Rightarrow> nat" where
  "strlen str = length (takeWhile (\<lambda>b. b \<noteq> 0) str)"

definition fy_emit_puts ::
  "('u, 'x) fy_emitter \<Rightarrow> fy_emitter_write_type \<Rightarrow> byte list \<Rightarrow> ('u, 'x) fy_emitter" where
  "fy_emit_puts emit type str = fy_emit_write emit type str (int (strlen str))"

text \<open>
  Modelled from the spec: \<^verbatim>\<open>fy_utf8_format\<close> is declared in \<^verbatim>\<open>fy-utf8.h\<close> but its body is
  not among the sources. With \<^verbatim>\<open>fyue_none\<close> it stores the code point unescaped, that is
  the one to four bytes of the encoder (spec, section 4.1), and a terminating zero;
  nothing but the zero for an invalid code point.
\<close>

definition fy_utf8_format_none :: "int \<Rightarrow> byte list" where
  "fy_utf8_format_none c = (case fy_utf8_put 4 c of None \<Rightarrow> [0] | Some bs \<Rightarrow> bs @ [0])"

definition fy_emit_putc ::
  "('u, 'x) fy_emitter \<Rightarrow> fy_emitter_write_type \<Rightarrow> int \<Rightarrow> ('u, 'x) fy_emitter" where
  "fy_emit_putc emit type c = fy_emit_puts emit type (fy_utf8_format_none c)"

text \<open>
  \<^verbatim>\<open>fy_emit_common_document_end(emit)\<close> and \<^verbatim>\<open>fy_emit_document_end(emit)\<close>: the returned
  \<^verbatim>\<open>int\<close> and the emitter after the call.
\<close>

definition fy_emit_common_document_end :: "('u, 'x) fy_emitter \<Rightarrow> int \<times> ('u, 'x) fy_emitter" where
  "fy_emit_common_document_end emit =
     (case em_fyds emit of
        None \<Rightarrow> (- 1, emit)
      | Some fyds \<Rightarrow>
          let emit1 = (if em_column emit \<noteq> 0
                       then (fy_emit_putc emit fyewt_linebreak 0x0a)
                              \<lparr>em_flags := {FYEF_WHITESPACE, FYEF_INDENTATION}\<rparr>
                       else emit);
              dem = (((cfg_doc_end_mark (em_cfg emit1) = MARK_AUTO \<and> \<not> end_implicit fyds) \<or>
                      cfg_doc_end_mark (em_cfg emit1) = MARK_ON) \<and>
                     \<not> cfg_strip_doc (em_cfg emit1));
              emit2 = (if \<not> fy_emit_is_json_mode emit1 \<and> dem then
                         (fy_emit_putc
                            (fy_emit_puts emit1 fyewt_document_indicator [0x2e, 0x2e, 0x2e, 0])
                            fyewt_linebreak 0x0a)
                           \<lparr>em_flags := {FYEF_WHITESPACE, FYEF_INDENTATION, FYEF_HAD_DOCUMENT_END}\<rparr>
                       else emit1\<lparr>em_flags := em_flags emit1 - {FYEF_HAD_DOCUMENT_END}\<rparr>)
          in (0, emit2\<lparr>em_flags := em_flags emit2 \<union> {FYEF_HAD_DOCUMENT_OUTPUT},
                       em_fyds := None\<rparr>))"

definition fy_emit_document_end :: "('u, 'x) fy_emitter \<Rightarrow> int \<times> ('u, 'x) fy_emitter" where
  "fy_emit_document_end emit =
     (let (ret, emit1) = fy_emit_common_document_end emit
      in if ret \<noteq> 0 then (ret, emit1) else (0, emit1\<lparr>em_fyd := None\<rparr>))"

subsection \<open>Formatted output\<close>

text \<open>
  \<^verbatim>\<open>fy_emit_printf(emit, type, fmt, ...)\<close>, with \<open>str\<close> the bytes that \<^verbatim>\<open>vsnprintf\<close> produces for
  the format and its arguments: their number is the \<^verbatim>\<open>int\<close> that \<^verbatim>\<open>vsnprintf\<close> returns, which
  is negative (and nothing is written) when it does not fit.
\<close>

definition fy_emit_printf ::
  "('u, 'x) fy_emitter \<Rightarrow> fy_emitter_write_type \<Rightarrow> byte list \<Rightarrow> ('u, 'x) fy_emitter" where
  "fy_emit_printf emit type str =
     (if length str \<ge> 2 ^ 31 then emit else fy_emit_write emit type str (int (length str)))"

text \<open>What \<^verbatim>\<open>%d\<close> prints for an \<^verbatim>\<open>int\<close>, and \<^verbatim>\<open>%.*s\<close> for the bytes at a pointer.\<close>

function dec_digits :: "nat \<Rightarrow> byte list" where
  "dec_digits n =
     (if n < 10 then [of_nat (48 + n)] else dec_digits (n div 10) @ [of_nat (48 + n mod 10)])"
  by pat_completeness auto
termination
  by (relation "measure id") auto

declare dec_digits.simps [simp del]

definition fmt_d :: "c_int \<Rightarrow> byte list" where
  "fmt_d v = (if sint v < 0 then 0x2d # dec_digits (nat (- sint v)) else dec_digits (nat (sint v)))"

definition fmt_s :: "byte list \<Rightarrow> byte list" where
  "fmt_s str = takeWhile (\<lambda>b. b \<noteq> 0) str"

subsection \<open>Document start, reset, and the tree entry point\<close>

text \<open>
  The loop of \<^verbatim>\<open>fy_emit_common_document_start\<close> over the tag directives: the emitter and
  \<^verbatim>\<open>had_non_default_tag\<close>.
\<close>

fun tag_directives_loop ::
  "fy_tag_directive list \<Rightarrow> ('u, 'x) fy_emitter \<Rightarrow> bool \<Rightarrow> ('u, 'x) fy_emitter \<times> bool" where
  "tag_directives_loop [] emit had = (emit, had)"
| "tag_directives_loop (t # ts) emit had =
     (if td_is_default t then tag_directives_loop ts emit had
      else
        let e1 = (if em_column emit \<noteq> 0 then fy_emit_putc emit fyewt_linebreak 0x0a else emit);
            e2 = fy_emit_printf e1 fyewt_tag_directive
                   ([0x25, 0x54, 0x41, 0x47, 0x20] @ fmt_s (td_handle t) @ [0x20] @
                    fmt_s (td_prefix t));
            e3 = fy_emit_putc e2 fyewt_linebreak 0x0a
        in tag_directives_loop ts (e3\<lparr>em_flags := {FYEF_WHITESPACE, FYEF_INDENTATION}\<rparr>) True)"

text \<open>
  \<^verbatim>\<open>fy_emit_common_document_start(emit, fyds, root_tag_or_anchor)\<close>: the returned \<^verbatim>\<open>int\<close> and
  the emitter. The strings are \<^verbatim>\<open>...\<close>, \<^verbatim>\<open>%YAML maj.min\<close> and \<^verbatim>\<open>---\<close>.
\<close>

definition fy_emit_common_document_start ::
  "('u, 'x) fy_emitter \<Rightarrow> fy_document_state option \<Rightarrow> bool \<Rightarrow> int \<times> ('u, 'x) fy_emitter" where
  "fy_emit_common_document_start emit fydsp root_tag_or_anchor =
     (case fydsp of
        None \<Rightarrow> (- 1, emit)
      | Some fyds \<Rightarrow>
          if em_fyds emit \<noteq> None then (- 1, emit)
          else
            let cfg = em_cfg emit;
                strip = cfg_strip_doc cfg;
                json = fy_emit_is_json_mode emit;
                emit1 = emit\<lparr>em_fyds := Some fyds\<rparr>;
                vd = (((cfg_version_dir cfg = MARK_AUTO \<and> version_explicit fyds) \<or>
                       cfg_version_dir cfg = MARK_ON) \<and> \<not> strip);
                td = (((cfg_tag_dir cfg = MARK_AUTO \<and> tags_explicit fyds) \<or>
                       cfg_tag_dir cfg = MARK_ON) \<and> \<not> strip);
                emit2 =
                  (if \<not> json \<and> (vd \<or> td) \<and> FYEF_HAD_DOCUMENT_END \<notin> em_flags emit1 then
                     let e1 = (if em_column emit1 \<noteq> 0
                               then fy_emit_putc emit1 fyewt_linebreak 0x0a else emit1)
                     in if \<not> strip then
                          let e2 = fy_emit_puts e1 fyewt_document_indicator [0x2e, 0x2e, 0x2e, 0]
                          in e2\<lparr>em_flags := (em_flags e2 - {FYEF_WHITESPACE}) \<union>
                                              {FYEF_HAD_DOCUMENT_END}\<rparr>
                        else e1
                   else emit1);
                emit3 =
                  (if \<not> json \<and> vd then
                     let e1 = (if em_column emit2 \<noteq> 0
                               then fy_emit_putc emit2 fyewt_linebreak 0x0a else emit2);
                         e2 = fy_emit_printf e1 fyewt_version_directive
                                ([0x25, 0x59, 0x41, 0x4d, 0x4c, 0x20] @ fmt_d (version_major fyds) @
                                 [0x2e] @ fmt_d (version_minor fyds));
                         e3 = fy_emit_putc e2 fyewt_linebreak 0x0a
                     in e3\<lparr>em_flags := {FYEF_WHITESPACE, FYEF_INDENTATION}\<rparr>
                   else emit2);
                (emit4, had_non_default_tag) =
                  (if \<not> json \<and> td then tag_directives_loop (fyt_td fyds) emit3 False
                   else (emit3, False));
                dsm0 = ((cfg_doc_start_mark cfg = MARK_AUTO \<and>
                         (\<not> start_implicit fyds \<or> tags_explicit fyds \<or> version_explicit fyds \<or>
                          had_non_default_tag)) \<or>
                        cfg_doc_start_mark cfg = MARK_ON);
                dsm = (if \<not> dsm0 \<and> FYEF_HAD_DOCUMENT_OUTPUT \<in> em_flags emit4 \<and>
                          FYEF_HAD_DOCUMENT_END \<notin> em_flags emit4
                       then True else dsm0);
                emit5 =
                  (if \<not> json \<and> dsm then
                     let e1 = (if em_column emit4 \<noteq> 0
                               then fy_emit_putc emit4 fyewt_linebreak 0x0a else emit4)
                     in if \<not> strip then
                          let e2 = fy_emit_puts e1 fyewt_document_indicator [0x2d, 0x2d, 0x2d, 0]
                          in e2\<lparr>em_flags := (em_flags e2 - {FYEF_WHITESPACE}) \<union>
                                              {FYEF_HAD_DOCUMENT_START}\<rparr>
                        else e1
                   else emit4\<lparr>em_flags := em_flags emit4 - {FYEF_HAD_DOCUMENT_START}\<rparr>)
            in (0, emit5\<lparr>em_flags := em_flags emit5 - {FYEF_HAD_DOCUMENT_END}\<rparr>))"

text \<open>
  \<^verbatim>\<open>fy_emit_document_start(emit, fyd, fyn_root)\<close> as \<^verbatim>\<open>fy_emit_document\<close> calls it, with a
  \<^verbatim>\<open>NULL\<close> \<^verbatim>\<open>fyn_root\<close>; \<open>fydp\<close> is \<open>None\<close> for a \<^verbatim>\<open>NULL\<close> document.
\<close>

definition fy_emit_document_start ::
  "('u, 'x) fy_emitter \<Rightarrow> 'n fy_document option \<Rightarrow> int \<times> ('u, 'x) fy_emitter" where
  "fy_emit_document_start emit fydp =
     (case fydp of
        None \<Rightarrow> (- 1, emit)
      | Some fyd \<Rightarrow>
          if fyd_fyds fyd = None then (- 1, emit)
          else
            let (ret, emit1) =
                  fy_emit_common_document_start emit (fyd_fyds fyd) (fyd_root_tag_or_anchor fyd)
            in if ret \<noteq> 0 then (ret, emit1)
               else (0, emit1\<lparr>em_fyd := Some (fyd_addr fyd)\<rparr>))"

text \<open>\<^verbatim>\<open>fy_emit_reset(emit, reset_events)\<close>.\<close>

definition fy_emit_reset :: "('u, 'x) fy_emitter \<Rightarrow> bool \<Rightarrow> ('u, 'x) fy_emitter" where
  "fy_emit_reset emit reset_events =
     emit\<lparr>em_line := 0, em_column := 0, em_flow_level := 0, em_output_error := False,
          em_flags := {FYEF_WHITESPACE, FYEF_INDENTATION, FYEF_HAD_DOCUMENT_END},
          em_state := FYES_NONE, em_ea := [], em_s_indent := - 1, em_s_flags := {DDNF_ROOT},
          em_state_stack_top := 0, em_sc_stack_top := 0,
          em_queued_events := (if reset_events then [] else em_queued_events emit)\<rparr>"

text \<open>
  The writers of nodes work on \<^verbatim>\<open>struct fy_node\<close>, on tokens, on the accumulator and on
  the save contexts, all declared in headers that are not among the sources
  (\<^verbatim>\<open>fy-doc.h\<close>, \<^verbatim>\<open>fy-token.h\<close>, \<^verbatim>\<open>fy-emit-accum.h\<close>, \<^verbatim>\<open>fy-emit.h\<close>). They are taken as
  parameters: \<^verbatim>\<open>fy_emit_node_comment\<close> and \<^verbatim>\<open>fy_emit_node_internal\<close>, which return nothing,
  as functions from the emitter before the call to the emitter after it, and the four
  handlers of the streaming states that write nodes as functions that also give the
  returned \<^verbatim>\<open>int\<close>. Whatever is proved holds for every such function.
\<close>

record ('u, 'x, 'n) fy_node_writers =
  nw_node_comment ::
    "('u, 'x) fy_emitter \<Rightarrow> 'n \<Rightarrow> fy_node_flag set \<Rightarrow> int \<Rightarrow> fy_comment_placement \<Rightarrow>
     ('u, 'x) fy_emitter"
  nw_node_internal ::
    "('u, 'x) fy_emitter \<Rightarrow> 'n \<Rightarrow> fy_node_flag set \<Rightarrow> int \<Rightarrow> ('u, 'x) fy_emitter"
  nw_handle_document_content ::
    "('u, 'x) fy_emitter \<Rightarrow> 'x fy_eventp \<Rightarrow> int \<times> ('u, 'x) fy_emitter"
  nw_handle_sequence_item ::
    "('u, 'x) fy_emitter \<Rightarrow> 'x fy_eventp \<Rightarrow> bool \<Rightarrow> int \<times> ('u, 'x) fy_emitter"
  nw_handle_mapping_key ::
    "('u, 'x) fy_emitter \<Rightarrow> 'x fy_eventp \<Rightarrow> bool \<Rightarrow> int \<times> ('u, 'x) fy_emitter"
  nw_handle_mapping_value ::
    "('u, 'x) fy_emitter \<Rightarrow> 'x fy_eventp \<Rightarrow> bool \<Rightarrow> int \<times> ('u, 'x) fy_emitter"

text \<open>\<^verbatim>\<open>fy_emit_root_node(emit, fyn)\<close> and \<^verbatim>\<open>fy_emit_document(emit, fyd)\<close>.\<close>

definition fy_emit_root_node ::
  "('u, 'x, 'n) fy_node_writers \<Rightarrow> ('u, 'x) fy_emitter \<Rightarrow> 'n option \<Rightarrow>
   int \<times> ('u, 'x) fy_emitter" where
  "fy_emit_root_node nw emit fynp =
     (case fynp of
        None \<Rightarrow> (- 1, emit)
      | Some fyn \<Rightarrow>
          let e1 = nw_node_comment nw emit fyn {DDNF_ROOT} (- 1) fycp_top;
              e2 = nw_node_internal nw e1 fyn {DDNF_ROOT} (- 1);
              e3 = nw_node_comment nw e2 fyn {DDNF_ROOT} (- 1) fycp_right;
              e4 = nw_node_comment nw e3 fyn {DDNF_ROOT} (- 1) fycp_bottom
          in (0, e4))"

definition fy_emit_document ::
  "('u, 'x, 'n) fy_node_writers \<Rightarrow> ('u, 'x) fy_emitter \<Rightarrow> 'n fy_document option \<Rightarrow>
   int \<times> ('u, 'x) fy_emitter" where
  "fy_emit_document nw emit fydp =
     (let (rc, emit1) = fy_emit_document_start emit fydp
      in if rc \<noteq> 0 then (rc, emit1)
         else
           let (rc2, emit2) =
                 fy_emit_root_node nw emit1 (case fydp of None \<Rightarrow> None | Some fyd \<Rightarrow> fyd_root fyd)
           in if rc2 \<noteq> 0 then (rc2, emit2) else fy_emit_document_end emit2)"

subsection \<open>The event entry point\<close>

text \<open>
  \<^verbatim>\<open>fy_emit_ready(emit)\<close>: \<open>ready_loop\<close> is its \<^verbatim>\<open>for\<close> loop over the queue, with \<^verbatim>\<open>need\<close>,
  \<^verbatim>\<open>count\<close> and \<^verbatim>\<open>level\<close>.
\<close>

fun ready_loop :: "'x fy_eventp list \<Rightarrow> int \<Rightarrow> int \<Rightarrow> int \<Rightarrow> bool" where
  "ready_loop [] need count level = False"
| "ready_loop (fyep # rest) need count level =
     (let count1 = count + 1 in
      if count1 > need then True
      else
        let level1 =
              (if ev_type fyep = FYET_STREAM_START \<or> ev_type fyep = FYET_DOCUMENT_START \<or>
                  ev_type fyep = FYET_SEQUENCE_START \<or> ev_type fyep = FYET_MAPPING_START
               then level + 1
               else if ev_type fyep = FYET_STREAM_END \<or> ev_type fyep = FYET_DOCUMENT_END \<or>
                       ev_type fyep = FYET_SEQUENCE_END \<or> ev_type fyep = FYET_MAPPING_END
               then level - 1
               else level)
        in if level1 = 0 then True else ready_loop rest need count1 level1)"

definition fy_emit_ready :: "('u, 'x) fy_emitter \<Rightarrow> bool" where
  "fy_emit_ready emit =
     (case em_queued_events emit of
        [] \<Rightarrow> False
      | fyep # rest \<Rightarrow>
          let need = (if ev_type fyep = FYET_DOCUMENT_START then 1
                      else if ev_type fyep = FYET_SEQUENCE_START then 2
                      else if ev_type fyep = FYET_MAPPING_START then 3
                      else 0)
          in if need = 0 then True else ready_loop (em_queued_events emit) need 0 0)"

text \<open>\<^verbatim>\<open>fy_emit_next_event(emit)\<close>: the event popped, or \<open>None\<close> for \<^verbatim>\<open>NULL\<close>.\<close>

definition fy_emit_next_event ::
  "('u, 'x) fy_emitter \<Rightarrow> ('x fy_eventp \<times> ('u, 'x) fy_emitter) option" where
  "fy_emit_next_event emit =
     (if \<not> fy_emit_ready emit then None
      else (case em_queued_events emit of
              [] \<Rightarrow> None
            | fyep # rest \<Rightarrow> Some (fyep, emit\<lparr>em_queued_events := rest\<rparr>)))"

definition fy_emit_goto_state ::
  "('u, 'x) fy_emitter \<Rightarrow> fy_emitter_state \<Rightarrow> ('u, 'x) fy_emitter" where
  "fy_emit_goto_state emit state = (if em_state emit = state then emit else emit\<lparr>em_state := state\<rparr>)"

text \<open>
  The handlers of the states that write no node. \<^verbatim>\<open>fy_emit_handle_document_start\<close> does not
  look at what \<^verbatim>\<open>fy_emit_common_document_start\<close> returns.
\<close>

definition fy_emit_handle_stream_start ::
  "('u, 'x) fy_emitter \<Rightarrow> 'x fy_eventp \<Rightarrow> int \<times> ('u, 'x) fy_emitter" where
  "fy_emit_handle_stream_start emit fyep =
     (if ev_type fyep \<noteq> FYET_STREAM_START then (- 1, emit)
      else (0, fy_emit_goto_state (fy_emit_reset emit False) FYES_FIRST_DOCUMENT_START))"

definition fy_emit_handle_document_start ::
  "('u, 'x) fy_emitter \<Rightarrow> 'x fy_eventp \<Rightarrow> bool \<Rightarrow> int \<times> ('u, 'x) fy_emitter" where
  "fy_emit_handle_document_start emit fyep first =
     (if ev_type fyep \<noteq> FYET_DOCUMENT_START \<and> ev_type fyep \<noteq> FYET_STREAM_END then (- 1, emit)
      else if ev_type fyep = FYET_STREAM_END then (0, fy_emit_goto_state emit FYES_END)
      else
        let emit1 = snd (fy_emit_common_document_start emit (ev_document_state fyep) False)
        in (0, fy_emit_goto_state emit1 FYES_DOCUMENT_CONTENT))"

definition fy_emit_handle_document_end ::
  "('u, 'x) fy_emitter \<Rightarrow> 'x fy_eventp \<Rightarrow> int \<times> ('u, 'x) fy_emitter" where
  "fy_emit_handle_document_end emit fyep =
     (if ev_type fyep \<noteq> FYET_DOCUMENT_END then (- 1, emit)
      else
        let (ret, emit1) = fy_emit_common_document_end emit
        in if ret \<noteq> 0 then (ret, emit1)
           else (0, fy_emit_goto_state (fy_emit_reset emit1 False) FYES_DOCUMENT_START))"

text \<open>The \<^verbatim>\<open>switch (emit->state)\<close> of \<^verbatim>\<open>fy_emit_event\<close>.\<close>

definition fy_emit_event_dispatch ::
  "('u, 'x, 'n) fy_node_writers \<Rightarrow> ('u, 'x) fy_emitter \<Rightarrow> 'x fy_eventp \<Rightarrow>
   int \<times> ('u, 'x) fy_emitter" where
  "fy_emit_event_dispatch nw emit fyep =
     (case em_state emit of
        FYES_NONE \<Rightarrow> (0, emit)
      | FYES_STREAM_START \<Rightarrow> fy_emit_handle_stream_start emit fyep
      | FYES_FIRST_DOCUMENT_START \<Rightarrow> fy_emit_handle_document_start emit fyep True
      | FYES_DOCUMENT_START \<Rightarrow> fy_emit_handle_document_start emit fyep False
      | FYES_DOCUMENT_CONTENT \<Rightarrow> nw_handle_document_content nw emit fyep
      | FYES_DOCUMENT_END \<Rightarrow> fy_emit_handle_document_end emit fyep
      | FYES_SEQUENCE_FIRST_ITEM \<Rightarrow> nw_handle_sequence_item nw emit fyep True
      | FYES_SEQUENCE_ITEM \<Rightarrow> nw_handle_sequence_item nw emit fyep False
      | FYES_MAPPING_FIRST_KEY \<Rightarrow> nw_handle_mapping_key nw emit fyep True
      | FYES_MAPPING_KEY \<Rightarrow> nw_handle_mapping_key nw emit fyep False
      | FYES_MAPPING_SIMPLE_VALUE \<Rightarrow> nw_handle_mapping_value nw emit fyep True
      | FYES_MAPPING_VALUE \<Rightarrow> nw_handle_mapping_value nw emit fyep False
      | FYES_END \<Rightarrow> (- 1, emit))"

text \<open>
  The loop \<^verbatim>\<open>while ((fyep = fy_emit_next_event(emit)) != NULL) { ...; if (ret) break; }\<close> of
  \<^verbatim>\<open>fy_emit_event\<close>, and \<^verbatim>\<open>fy_emit_event(emit, fye)\<close> itself; \<open>fyepp\<close> is \<open>None\<close> for a \<^verbatim>\<open>NULL\<close>
  event. The result is \<open>None\<close> when the loop does not end.
\<close>

partial_function (option) event_loop ::
  "('u, 'x, 'n) fy_node_writers \<Rightarrow> ('u, 'x) fy_emitter \<Rightarrow> int \<Rightarrow>
   (int \<times> ('u, 'x) fy_emitter) option" where
  "event_loop nw emit ret =
     (case fy_emit_next_event emit of
        None \<Rightarrow> Some (ret, emit)
      | Some (fyep, emit1) \<Rightarrow>
          (case fy_emit_event_dispatch nw emit1 fyep of
             (ret1, emit2) \<Rightarrow>
               if ret1 \<noteq> 0 then Some (ret1, emit2) else event_loop nw emit2 ret1))"

declare event_loop.simps [code]

definition fy_emit_event ::
  "('u, 'x, 'n) fy_node_writers \<Rightarrow> ('u, 'x) fy_emitter \<Rightarrow> 'x fy_eventp option \<Rightarrow>
   (int \<times> ('u, 'x) fy_emitter) option" where
  "fy_emit_event nw emit fyepp =
     (case fyepp of
        None \<Rightarrow> Some (- 1, emit)
      | Some fyep \<Rightarrow>
          let emit1 = (if em_state emit = FYES_NONE
                       then emit\<lparr>em_state := FYES_STREAM_START\<rparr> else emit);
              emit2 = emit1\<lparr>em_queued_events := em_queued_events emit1 @ [fyep]\<rparr>
          in event_loop nw emit2 0)"

section \<open>Scalar style selection (\<^verbatim>\<open>fy-emit.c\<close>)\<close>

text \<open>
  Modelled from the spec: \<^verbatim>\<open>enum fy_node_style\<close>, \<^verbatim>\<open>struct fy_token\<close> and the token functions \<^verbatim>\<open>fy_token_atom\<close>, \<^verbatim>\<open>fy_token_get_text\<close>,
  \<^verbatim>\<open>fy_token_get_text_length\<close> and \<^verbatim>\<open>fy_token_text_analyze\<close> are not among the sources.
  The styles are the five of the spec (section 4.7) with \<^verbatim>\<open>any\<close>, \<^verbatim>\<open>flow\<close>, \<^verbatim>\<open>block\<close> and
  \<^verbatim>\<open>alias\<close>, which \<^verbatim>\<open>fy-emit.c\<close> names. A token is what the four functions return for it:
  its atom, its text, and whether its text analysis allows direct output (section 4.7,
  rule 5). For a \<^verbatim>\<open>NULL\<close> token there is no atom, the text is empty and nothing forbids
  direct output.
\<close>

datatype fy_node_style =
  FYNS_ANY | FYNS_FLOW | FYNS_BLOCK | FYNS_PLAIN | FYNS_SINGLE_QUOTED
| FYNS_DOUBLE_QUOTED | FYNS_LITERAL | FYNS_FOLDED | FYNS_ALIAS












section \<open>Atoms over a given text\<close>

text \<open>
  The scanner that fills atoms is outside the sources. \<open>text_atom\<close> builds the atom that
  spans a whole input buffer \<open>bs\<close> with a given style, chomp mode and increment, and
  with the property bits that the comments of \<^verbatim>\<open>struct fy_atom\<close> describe computed from
  the bytes; its storage hint is not set and it is not marked for direct output.
\<close>

definition is_ws_byte :: "byte \<Rightarrow> bool" where
  "is_ws_byte b \<longleftrightarrow> b = 0x20 \<or> b = 0x09"

definition is_lb_byte :: "byte \<Rightarrow> bool" where
  "is_lb_byte b \<longleftrightarrow> b = 0x0a \<or> b = 0x0d"

definition text_atom :: "fy_atom_style \<Rightarrow> fy_atom_chomp \<Rightarrow> nat \<Rightarrow> byte list \<Rightarrow> fy_atom" where
  "text_atom st ch inc bs =
     \<lparr> start_mark = \<lparr>input_pos = 0, line = 0, column = 0\<rparr>,
       end_mark = \<lparr>input_pos = length bs,
                    line = int (length (filter is_lb_byte bs)),
                    column = int (length (takeWhile (\<lambda>b. \<not> is_lb_byte b) (rev bs)))\<rparr>,
       storage_hint = 0, fyi = bs, increment = inc, style = st, a_chomp = ch,
       direct_output = False, storage_hint_valid = False,
       a_empty = list_all (\<lambda>b. is_ws_byte b \<or> is_lb_byte b) bs,
       has_lb = list_ex is_lb_byte bs,
       has_ws = list_ex is_ws_byte bs,
       starts_with_ws = (bs \<noteq> [] \<and> is_ws_byte (hd bs)),
       starts_with_lb = (bs \<noteq> [] \<and> is_lb_byte (hd bs)),
       ends_with_ws = (bs \<noteq> [] \<and> is_ws_byte (last bs)),
       ends_with_lb = (bs \<noteq> [] \<and> is_lb_byte (last bs)),
       trailing_lb = (length bs \<ge> 2 \<and> is_lb_byte (last bs) \<and> is_lb_byte (last (butlast bs))),
       size0 = (bs = []) \<rparr>"

text \<open>The bytes of an ASCII string.\<close>

definition ascii :: "string \<Rightarrow> byte list" where
  "ascii s = map (\<lambda>c. of_nat (of_char c)) s"


section \<open>Reference notions for the properties\<close>

subsection \<open>Written text as a sequence of items\<close>

text \<open>
  What the emitter's position tracking is specified over (spec, section 3, invariant 4
  and section 4.6): a text is a sequence of code points, line breaks (line feed,
  carriage return, or the pair of both) and ANSI CSI sequences \<^verbatim>\<open>ESC [ ... m\<close>. \<open>render\<close>
  gives its bytes; a code point is rendered by \<^verbatim>\<open>fy_utf8_put_unchecked\<close>.
\<close>

datatype line_break = LF | CR | CRLF

datatype written = Point int | Break line_break | Csi "byte list"

definition render_item :: "written \<Rightarrow> byte list" where
  "render_item t =
     (case t of
        Point c \<Rightarrow> (case fy_utf8_put_unchecked c of None \<Rightarrow> [] | Some bs \<Rightarrow> bs)
      | Break LF \<Rightarrow> [0x0a]
      | Break CR \<Rightarrow> [0x0d]
      | Break CRLF \<Rightarrow> [0x0d, 0x0a]
      | Csi ps \<Rightarrow> [0x1b, 0x5b] @ ps @ [0x6d])"

definition render :: "written list \<Rightarrow> byte list" where
  "render ts = concat (map render_item ts)"

text \<open>
  The side conditions under which the bytes of a text read back as its items. A code
  point item is a valid code point that is not a line break. The parameter bytes of a
  CSI sequence are parameter bytes in the sense of ECMA-48, the bytes \<^verbatim>\<open>0x30\<close> to \<^verbatim>\<open>0x3f\<close>
  (digits and the separators \<^verbatim>\<open>: ; < = > ?\<close>). A lone carriage return is not followed by
  a lone line feed (the two would be the pair), and the code point \<^verbatim>\<open>ESC\<close> is not followed
  by the code point \<^verbatim>\<open>[\<close> (the two would open a CSI sequence).
\<close>

definition item_ok :: "written \<Rightarrow> bool" where
  "item_ok t =
     (case t of
        Point c \<Rightarrow> fy_utf8_is_valid c \<and> \<not> fy_is_lb c
      | Break b \<Rightarrow> True
      | Csi ps \<Rightarrow> list_all (\<lambda>b. 0x30 \<le> b \<and> b \<le> 0x3f) ps)"

fun items_ok :: "written list \<Rightarrow> bool" where
  "items_ok [] \<longleftrightarrow> True"
| "items_ok (t # ts) \<longleftrightarrow>
     item_ok t \<and> \<not> (t = Break CR \<and> ts \<noteq> [] \<and> hd ts = Break LF) \<and>
     \<not> (t = Point 0x1b \<and> ts \<noteq> [] \<and> hd ts = Point 0x5b) \<and> items_ok ts"

text \<open>
  The line after a text is the line before plus the number of its line breaks; the
  column after it is the number of code points after its last line break, counted from
  the column before when the text has no line break.
\<close>

definition is_break :: "written \<Rightarrow> bool" where
  "is_break t = (case t of Break b \<Rightarrow> True | _ \<Rightarrow> False)"

definition is_point :: "written \<Rightarrow> bool" where
  "is_point t = (case t of Point c \<Rightarrow> True | _ \<Rightarrow> False)"

definition spec_line :: "int \<Rightarrow> written list \<Rightarrow> int" where
  "spec_line ln ts = ln + int (length (filter is_break ts))"

definition spec_column :: "int \<Rightarrow> written list \<Rightarrow> int" where
  "spec_column col ts =
     (if list_ex is_break ts then 0 else col) +
     int (length (filter is_point (takeWhile (\<lambda>t. \<not> is_break t) (rev ts))))"

text \<open>The same column, item by item.\<close>

definition spec_step :: "int \<Rightarrow> written \<Rightarrow> int" where
  "spec_step col t = (case t of Point c \<Rightarrow> col + 1 | Break b \<Rightarrow> 0 | Csi ps \<Rightarrow> col)"


text \<open>A sequence of \<^verbatim>\<open>fy_emit_write\<close> calls, each writing the bytes of a text as a whole.\<close>

definition emit_writes ::
  "('u, 'x) fy_emitter \<Rightarrow> (fy_emitter_write_type \<times> written list) list \<Rightarrow> ('u, 'x) fy_emitter" where
  "emit_writes emit calls =
     fold (\<lambda>(type, ts) em. fy_emit_write em type (render ts) (int (length (render ts))))
       calls emit"

subsection \<open>An emitter with a bounded, recording output\<close>

text \<open>
  A write callback in the manner of \<^verbatim>\<open>do_buffer_output\<close> of \<^verbatim>\<open>fy-emit.c\<close> for a buffer
  of \<open>cap\<close> bytes that does not grow: the user data is the list of the byte strings it
  was called with; it accepts a string whole if the buffer has room for it, and
  otherwise returns \<open>0\<close>.
\<close>

definition bounded_output ::
  "nat \<Rightarrow> byte list list \<Rightarrow> fy_emitter_write_type \<Rightarrow> byte list \<Rightarrow> int \<Rightarrow> int \<times> byte list list" where
  "bounded_output cap ud type str len =
     (if int (length (concat ud)) + len \<le> int cap then len else 0, ud @ [take (nat len) str])"

text \<open>
  The emitter that \<^verbatim>\<open>fy_emit_setup\<close> leaves (all fields zero, then \<^verbatim>\<open>fy_emit_reset\<close>), in
  block mode with the callback above.
\<close>

definition bounded_emitter :: "nat \<Rightarrow> (byte list list, unit) fy_emitter" where
  "bounded_emitter cap =
     \<lparr> em_cfg = \<lparr> cfg_mode = FYECF_MODE_BLOCK, cfg_version_dir = MARK_AUTO,
                   cfg_tag_dir = MARK_AUTO, cfg_doc_start_mark = MARK_AUTO,
                   cfg_doc_end_mark = MARK_AUTO, cfg_strip_doc = False,
                   cfg_output = bounded_output cap \<rparr>,
       em_userdata = [], em_line = 0, em_column = 0, em_flow_level = 0,
       em_flags = {FYEF_WHITESPACE, FYEF_INDENTATION, FYEF_HAD_DOCUMENT_END},
       em_output_error = False, em_fyds = None, em_fyd = None,
       em_state = FYES_NONE, em_ea = [], em_s_indent = - 1, em_s_flags = {DDNF_ROOT},
       em_state_stack_top = 0, em_sc_stack_top = 0, em_queued_events = [] \<rparr>"

subsection \<open>Sequences of writes, node writers, a document and events\<close>

text \<open>The calls \<^verbatim>\<open>fy_emit_write(emit, type, str, len)\<close> of a list, one after the other.\<close>

definition fy_emit_writes ::
  "('u, 'x) fy_emitter \<Rightarrow> (fy_emitter_write_type \<times> byte list \<times> int) list \<Rightarrow>
   ('u, 'x) fy_emitter" where
  "fy_emit_writes emit ws = fold (\<lambda>(type, str, len) e. fy_emit_write e type str len) ws emit"

text \<open>
  Node writers that leave \<^verbatim>\<open>emit->fyds\<close> alone. In \<^verbatim>\<open>fy-emit.c\<close> the field is assigned by
  \<^verbatim>\<open>fy_emit_common_document_start\<close>, \<^verbatim>\<open>fy_emit_common_document_end\<close> and
  \<^verbatim>\<open>fy_emit_document_end\<close> (its \<^verbatim>\<open>NULL\<close> is already there) and by nothing else.
\<close>

definition keeps_fyds :: "('u, 'x, 'n) fy_node_writers \<Rightarrow> bool" where
  "keeps_fyds nw \<longleftrightarrow>
     (\<forall>emit fyn flags indent placement.
        em_fyds (nw_node_comment nw emit fyn flags indent placement) = em_fyds emit) \<and>
     (\<forall>emit fyn flags indent.
        em_fyds (nw_node_internal nw emit fyn flags indent) = em_fyds emit)"

text \<open>
  Node writers for the examples: a node is the text of a plain scalar without comments,
  written by one \<^verbatim>\<open>fy_emit_write\<close>; the streaming handlers, which no example reaches,
  refuse every event.
\<close>

definition scalar_writers :: "(byte list list, unit, byte list) fy_node_writers" where
  "scalar_writers =
     \<lparr> nw_node_comment = (\<lambda>emit fyn flags indent placement. emit),
       nw_node_internal =
         (\<lambda>emit fyn flags indent. fy_emit_write emit fyewt_plain_scalar fyn (int (length fyn))),
       nw_handle_document_content = (\<lambda>emit fyep. (- 1, emit)),
       nw_handle_sequence_item = (\<lambda>emit fyep first. (- 1, emit)),
       nw_handle_mapping_key = (\<lambda>emit fyep first. (- 1, emit)),
       nw_handle_mapping_value = (\<lambda>emit fyep simple. (- 1, emit)) \<rparr>"

text \<open>
  A document with an explicit start (\<^verbatim>\<open>---\<close> is written for it), no directives, and the
  scalar \<^verbatim>\<open>ab\<close> as its root; a stream start and a stream end event.
\<close>

definition example_document_state :: fy_document_state where
  "example_document_state =
     \<lparr> version_major = 1, version_minor = 2, version_explicit = False, tags_explicit = False,
       start_implicit = False, end_implicit = True, fyt_td = [] \<rparr>"

definition example_document :: "byte list fy_document" where
  "example_document =
     \<lparr> fyd_addr = 0, fyd_fyds = Some example_document_state, fyd_root = Some [0x61, 0x62],
       fyd_root_tag_or_anchor = False \<rparr>"

definition stream_start_event :: "unit fy_eventp" where
  "stream_start_event =
     \<lparr> ev_type = FYET_STREAM_START, ev_document_state = None, ev_data = () \<rparr>"

definition stream_end_event :: "unit fy_eventp" where
  "stream_end_event = \<lparr> ev_type = FYET_STREAM_END, ev_document_state = None, ev_data = () \<rparr>"

subsection \<open>The bytes of an atom\<close>

text \<open>
  The bytes that repeated calls of \<^verbatim>\<open>fy_atom_iter_getc\<close> return until the first \<open>-1\<close>.
\<close>

partial_function (option) getc_all :: "fy_atom_iter \<Rightarrow> byte list option" where
  "getc_all iter =
     (case fy_atom_iter_getc iter of
        None \<Rightarrow> None
      | Some (c, iter1) \<Rightarrow>
          if c = - 1 then Some []
          else do { bs \<leftarrow> getc_all iter1; Some (word_of_int c # bs) })"

declare getc_all.simps [code]


subsection \<open>A JSON emitter and scalar tokens\<close>



section \<open>Proof setup\<close>

text \<open>
  The defining equations of the loops are unfolded by hand, one iteration at a time.
\<close>

declare analyze_loop.simps [simp del]
declare trailing_loop.simps [simp del]
declare format_single_quoted.simps [simp del]
declare format_double_quoted.simps [simp del]
declare format_uri.simps [simp del]
declare format_double_quoted_manual.simps [simp del]
declare advance_loop.simps [simp del]

chapter \<open>Properties\<close>

section \<open>UTF-8: encoding, then decoding\<close>

lemma bit_int_3f: "bit (0x3f::int) n \<longleftrightarrow> n < 6"
proof -
  have "(0x3f::int) = mask 6" by (simp add: mask_eq_exp_minus_1)
  then show ?thesis by (simp only: bit_mask_iff) simp
qed

lemma bit_int_80: "bit (0x80::int) n \<longleftrightarrow> n = 7"
proof -
  have "(0x80::int) = 2 ^ 7" by simp
  then show ?thesis by (simp only: bit_exp_iff) auto
qed

lemma int_bit_eq_iff: "(a::int) = b \<longleftrightarrow> (\<forall>n. bit a n \<longleftrightarrow> bit b n)"
  using bit_eq_iff by blast

lemma cont_byte:
  "uint (word_of_int (((x::int) AND 0x3f) OR 0x80) :: byte) AND 0x3f = x AND 0x3f"
  by (auto simp add: int_bit_eq_iff bit_simps bit_int_3f bit_int_80)

lemma int_range_cases: "0 \<le> (h::int) \<Longrightarrow> h < 32 \<Longrightarrow> h \<in> set [0..31]"
  by simp

lemma lead2:
  assumes "0 \<le> h" "h < 32"
  shows "fy_utf8_width_by_first_octet (word_of_int (h OR 0xc0)) = 2 \<and>
         uint (word_of_int (h OR 0xc0) :: byte) AND 0x1f = h"
  using int_range_cases[OF assms]
  by (simp add: upto.simps fy_utf8_width_by_first_octet_def) (elim disjE; simp)

lemma lead3:
  assumes "0 \<le> h" "h < 16"
  shows "fy_utf8_width_by_first_octet (word_of_int (h OR 0xe0)) = 3 \<and>
         uint (word_of_int (h OR 0xe0) :: byte) AND 0x0f = h"
proof -
  have "h \<in> set [0..15]" using assms by simp
  then show ?thesis
    by (simp add: upto.simps fy_utf8_width_by_first_octet_def) (elim disjE; simp)
qed

lemma lead4:
  assumes "0 \<le> h" "h < 8"
  shows "fy_utf8_width_by_first_octet (word_of_int (h OR 0xf0)) = 4 \<and>
         uint (word_of_int (h OR 0xf0) :: byte) AND 0x07 = h"
proof -
  have "h \<in> set [0..7]" using assms by simp
  then show ?thesis
    by (simp add: upto.simps fy_utf8_width_by_first_octet_def) (elim disjE; simp)
qed

lemma m6: "(0x3f::int) = mask 6" by (simp add: mask_eq_exp_minus_1)

lemma recombine2: "push_bit 6 (drop_bit 6 c) OR ((c::int) AND 0x3f) = c"
  unfolding m6 by (auto simp add: int_bit_eq_iff bit_simps)

lemma recombine3:
  "push_bit 6 (push_bit 6 (drop_bit 12 c) OR (drop_bit 6 c AND 0x3f)) OR ((c::int) AND 0x3f) = c"
proof -
  have "push_bit 6 (drop_bit 12 c) OR (drop_bit 6 c AND 0x3f) = drop_bit 6 c"
    using recombine2 [of "drop_bit 6 c"] by (simp add: drop_bit_drop_bit)
  then show ?thesis by (simp add: recombine2)
qed

lemma recombine4:
  "push_bit 6 (push_bit 6 (push_bit 6 (drop_bit 18 c) OR (drop_bit 12 c AND 0x3f))
      OR (drop_bit 6 c AND 0x3f)) OR ((c::int) AND 0x3f) = c"
proof -
  have "push_bit 6 (drop_bit 18 c) OR (drop_bit 12 c AND 0x3f) = drop_bit 12 c"
    using recombine2 [of "drop_bit 12 c"] by (simp add: drop_bit_drop_bit)
  then show ?thesis by (simp only: recombine3)
qed

lemma recombine3n:
  "(push_bit 12 (drop_bit 12 c) OR push_bit 6 (drop_bit 6 c) AND 4032) OR (c::int) AND 63 = c"
  using recombine3 [of c] by simp

lemma recombine4n:
  "((push_bit 18 (drop_bit 18 c) OR push_bit 12 (drop_bit 12 c) AND 258048) OR
      push_bit 6 (drop_bit 6 c) AND 4032) OR (c::int) AND 63 = c"
  using recombine4 [of c] by simp

lemma upt_1_2: "[Suc 0..<2] = [Suc 0]" and upt_1_3: "[Suc 0..<3] = [Suc 0, 2]"
  and upt_1_4: "[Suc 0..<4] = [Suc 0, 2, 3]"
  by (simp_all add: upt_rec)

lemma get2:
  assumes "0x80 \<le> c" "c < 0x800" "2 \<le> left"
  shows "fy_utf8_get (word_of_int (drop_bit 6 c OR 0xc0) # word_of_int ((c AND 0x3f) OR 0x80) # rest)
           left = (c, 2)"
proof -
  have h: "0 \<le> drop_bit 6 c" "drop_bit 6 c < 32" using assms by (simp_all add: drop_bit_eq_div)
  note l = lead2 [OF h]
  have nz: "(word_of_int (drop_bit 6 c OR 0xc0) :: byte) AND 0x80 \<noteq> 0"
    using l by (auto simp add: fy_utf8_width_by_first_octet_def split: if_splits)
  have v: "fy_utf8_is_valid c" using assms by (simp add: fy_utf8_is_valid_def)
  show ?thesis
    using l nz v assms
    by (simp add: fy_utf8_get_def fy_utf8_get_generic_def byte_at_def upt_1_2 cont_byte recombine2)
qed

lemma get3:
  assumes "0x800 \<le> c" "c < 0x10000" "\<not> (0xD800 \<le> c \<and> c \<le> 0xDFFF)" "3 \<le> left"
  shows "fy_utf8_get (word_of_int (drop_bit 12 c OR 0xe0) #
              word_of_int ((drop_bit 6 c AND 0x3f) OR 0x80) #
              word_of_int ((c AND 0x3f) OR 0x80) # rest) left = (c, 3)"
proof -
  have h: "0 \<le> drop_bit 12 c" "drop_bit 12 c < 16" using assms by (simp_all add: drop_bit_eq_div)
  note l = lead3 [OF h]
  have nz: "(word_of_int (drop_bit 12 c OR 0xe0) :: byte) AND 0x80 \<noteq> 0"
    using l by (auto simp add: fy_utf8_width_by_first_octet_def split: if_splits)
  have v: "fy_utf8_is_valid c" using assms by (simp add: fy_utf8_is_valid_def)
  show ?thesis
    using l nz v assms
    by (simp add: fy_utf8_get_def fy_utf8_get_generic_def byte_at_def upt_1_3 cont_byte recombine3n)
qed

lemma get4:
  assumes "0x10000 \<le> c" "c \<le> 0x10FFFF" "4 \<le> left"
  shows "fy_utf8_get (word_of_int (drop_bit 18 c OR 0xf0) #
              word_of_int ((drop_bit 12 c AND 0x3f) OR 0x80) #
              word_of_int ((drop_bit 6 c AND 0x3f) OR 0x80) #
              word_of_int ((c AND 0x3f) OR 0x80) # rest) left = (c, 4)"
proof -
  have h: "0 \<le> drop_bit 18 c" "drop_bit 18 c < 8" using assms by (simp_all add: drop_bit_eq_div)
  note l = lead4 [OF h]
  have nz: "(word_of_int (drop_bit 18 c OR 0xf0) :: byte) AND 0x80 \<noteq> 0"
    using l by (auto simp add: fy_utf8_width_by_first_octet_def split: if_splits)
  have v: "fy_utf8_is_valid c" using assms by (simp add: fy_utf8_is_valid_def)
  show ?thesis
    using l nz v assms
    by (simp add: fy_utf8_get_def fy_utf8_get_generic_def byte_at_def upt_1_4 cont_byte recombine4n)
qed

lemma get1:
  assumes "0 \<le> c" "c < 0x80" "1 \<le> left"
  shows "fy_utf8_get (word_of_int c # rest) left = (c, 1) \<and>
         fy_utf8_width_by_first_octet (word_of_int c) = 1"
proof -
  have "c \<in> set [0..127]" using assms by simp
  then show ?thesis
    using assms(3)
    by (simp add: upto.simps fy_utf8_get_def byte_at_def fy_utf8_width_by_first_octet_def)
      (elim disjE; simp)
qed

lemma lead_high_bit:
  "fy_utf8_width_by_first_octet b = 2 \<or> fy_utf8_width_by_first_octet b = 3 \<or>
   fy_utf8_width_by_first_octet b = 4 \<Longrightarrow> b AND 0x80 \<noteq> 0"
  by (auto simp add: fy_utf8_width_by_first_octet_def split: if_splits)

text \<open>Decoding what the encoder stored, whatever follows it in memory.\<close>

lemma fy_utf8_get_put_append:
  assumes "fy_utf8_is_valid c" "fy_utf8_put_unchecked c = Some bs" "int (length bs) \<le> left"
  shows "fy_utf8_get (bs @ rest) left = (c, int (length bs))"
proof -
  have r: "0 \<le> c" "c \<le> 0x10FFFF" "\<not> (0xD800 \<le> c \<and> c \<le> 0xDFFF)"
    using assms(1) by (simp_all add: fy_utf8_is_valid_def)
  consider "c < 0x80" | "0x80 \<le> c" "c < 0x800" | "0x800 \<le> c" "c < 0x10000" | "0x10000 \<le> c"
    by linarith
  then show ?thesis
  proof cases
    case 1
    then show ?thesis using r assms(2,3) get1 [of c left rest]
      by (auto simp add: fy_utf8_put_unchecked_def)
  next
    case 2
    then show ?thesis using r assms(2,3) get2 [of c left rest]
      by (auto simp add: fy_utf8_put_unchecked_def)
  next
    case 3
    then show ?thesis using r assms(2,3) get3 [of c left rest]
      by (auto simp add: fy_utf8_put_unchecked_def)
  next
    case 4
    then show ?thesis using r assms(2,3) get4 [of c left rest]
      by (auto simp add: fy_utf8_put_unchecked_def)
  qed
qed

text \<open>The first byte that the encoder stores: the code point itself below \<open>0x80\<close>, else a
  byte with the high bit set.\<close>

lemma fy_utf8_put_first_byte:
  assumes "fy_utf8_is_valid c" "fy_utf8_put_unchecked c = Some bs"
  shows "bs \<noteq> [] \<and> (if c < 0x80 then bs = [word_of_int c] else hd bs AND 0x80 \<noteq> 0)"
proof -
  have r: "0 \<le> c" "c \<le> 0x10FFFF"
    using assms(1) by (simp_all add: fy_utf8_is_valid_def)
  consider "c < 0x80" | "0x80 \<le> c" "c < 0x800" | "0x800 \<le> c" "c < 0x10000" | "0x10000 \<le> c"
    by linarith
  then show ?thesis
  proof cases
    case 1
    then show ?thesis using r assms(2) by (auto simp add: fy_utf8_put_unchecked_def)
  next
    case 2
    have h: "0 \<le> drop_bit 6 c" "drop_bit 6 c < 32" using 2 by (simp_all add: drop_bit_eq_div)
    from lead2 [OF h] have "(word_of_int (drop_bit 6 c OR 0xc0) :: byte) AND 0x80 \<noteq> 0"
      by (intro lead_high_bit) simp
    then show ?thesis using 2 r assms(2) by (auto simp add: fy_utf8_put_unchecked_def)
  next
    case 3
    have h: "0 \<le> drop_bit 12 c" "drop_bit 12 c < 16" using 3 by (simp_all add: drop_bit_eq_div)
    from lead3 [OF h] have "(word_of_int (drop_bit 12 c OR 0xe0) :: byte) AND 0x80 \<noteq> 0"
      by (intro lead_high_bit) simp
    then show ?thesis using 3 r assms(2) by (auto simp add: fy_utf8_put_unchecked_def)
  next
    case 4
    have h: "0 \<le> drop_bit 18 c" "drop_bit 18 c < 8" using 4 r by (simp_all add: drop_bit_eq_div)
    from lead4 [OF h] have "(word_of_int (drop_bit 18 c OR 0xf0) :: byte) AND 0x80 \<noteq> 0"
      by (intro lead_high_bit) simp
    then show ?thesis using 4 r assms(2) by (auto simp add: fy_utf8_put_unchecked_def)
  qed
qed

text \<open>
  C9. For every code point \<open>c\<close> from \<open>U+0001\<close> to \<open>U+10FFFF\<close> outside the surrogate
  range, \<^verbatim>\<open>fy_utf8_put_unchecked\<close> stores a byte sequence from which \<^verbatim>\<open>fy_utf8_get\<close> reads
  \<open>c\<close> again with the width \<^verbatim>\<open>fy_utf8_width(c)\<close>, and \<^verbatim>\<open>fy_utf8_width_by_first_octet\<close> of
  the first stored byte is that width.
\<close>

theorem utf8_put_get_roundtrip:
  assumes "1 \<le> c" "c \<le> 0x10FFFF" "\<not> (0xD800 \<le> c \<and> c \<le> 0xDFFF)"
  shows "\<exists>bs. fy_utf8_put_unchecked c = Some bs \<and>
           fy_utf8_get bs (int (length bs)) = (c, int (fy_utf8_width c)) \<and>
           fy_utf8_width_by_first_octet (hd bs) = int (fy_utf8_width c)"
proof -
  consider "c < 0x80" | "0x80 \<le> c" "c < 0x800" | "0x800 \<le> c" "c < 0x10000" | "0x10000 \<le> c"
    by linarith
  then show ?thesis
  proof cases
    case 1
    then show ?thesis using assms get1 [of c 1 "[]"]
      by (simp add: fy_utf8_put_unchecked_def fy_utf8_width_def)
  next
    case 2
    have h: "0 \<le> drop_bit 6 c" "drop_bit 6 c < 32" using 2 by (simp_all add: drop_bit_eq_div)
    show ?thesis using 2 get2 [of c 2 "[]"] lead2 [OF h]
      by (simp add: fy_utf8_put_unchecked_def fy_utf8_width_def)
  next
    case 3
    have h: "0 \<le> drop_bit 12 c" "drop_bit 12 c < 16" using 3 by (simp_all add: drop_bit_eq_div)
    show ?thesis using 3 assms get3 [of c 3 "[]"] lead3 [OF h]
      by (simp add: fy_utf8_put_unchecked_def fy_utf8_width_def)
  next
    case 4
    have h: "0 \<le> drop_bit 18 c" "drop_bit 18 c < 8" using 4 assms by (simp_all add: drop_bit_eq_div)
    show ?thesis using 4 assms get4 [of c 4 "[]"] lead4 [OF h]
      by (simp add: fy_utf8_put_unchecked_def fy_utf8_width_def)
  qed
qed

theorem utf8_put_get_roundtrip_witness:
  "fy_utf8_put_unchecked 0x2713 = Some [0xe2, 0x9c, 0x93] \<and>
   fy_utf8_get [0xe2, 0x9c, 0x93] 3 = (0x2713, 3) \<and>
   fy_utf8_width 0x2713 = 3 \<and>
   fy_utf8_width_by_first_octet 0xe2 = 3"
  using utf8_put_get_roundtrip [of "0x2713"]
  by (simp add: fy_utf8_put_unchecked_def fy_utf8_width_def)


section \<open>The pushback slot\<close>

lemma and_ff_id: "0 \<le> c \<Longrightarrow> c \<le> 255 \<Longrightarrow> c AND 0xff = (c::int)"
proof -
  assume "0 \<le> c" "c \<le> 255"
  then have "take_bit 8 c = c" by (simp add: take_bit_int_eq_self)
  moreover have "(0xff::int) = mask 8" by (simp add: mask_eq_exp_minus_1)
  ultimately show ?thesis by (simp add: take_bit_eq_mask)
qed

text \<open>
  C10. For an iterator whose pushback slot is empty (\<^verbatim>\<open>unget_c == -1\<close>) and a byte value
  \<open>c\<close> from 0 to 255, \<^verbatim>\<open>fy_atom_iter_ungetc(iter, c)\<close> returns \<open>c\<close> and fills the slot; the
  next \<^verbatim>\<open>fy_atom_iter_getc\<close> returns \<open>c\<close> and leaves the iterator exactly as it was before
  the \<^verbatim>\<open>ungetc\<close> (no chunk is consumed, no line is formatted); and an \<^verbatim>\<open>ungetc\<close> of any
  value while the slot is occupied returns \<open>-1\<close> and leaves the iterator, with its pending
  byte, unchanged.
\<close>

theorem ungetc_then_getc:
  assumes "it_unget_c iter = - 1" "0 \<le> c" "c \<le> 255"
  shows "fy_atom_iter_ungetc iter c = (c, iter\<lparr>it_unget_c := c\<rparr>) \<and>
         fy_atom_iter_getc (iter\<lparr>it_unget_c := c\<rparr>) = Some (c, iter) \<and>
         fy_atom_iter_ungetc (iter\<lparr>it_unget_c := c\<rparr>) c' = (- 1, iter\<lparr>it_unget_c := c\<rparr>)"
proof -
  have m: "c AND 0xff = c" using assms by (simp add: and_ff_id)
  have ne: "c \<noteq> - 1" using assms by simp
  have restore: "iter\<lparr>it_unget_c := c\<rparr>\<lparr>it_unget_c := - 1\<rparr> = iter"
    using assms(1) by simp
  show ?thesis
    using assms(1) ne m restore
    by (simp add: fy_atom_iter_ungetc_def fy_atom_iter_getc_def)
qed

theorem ungetc_then_getc_witness:
  "it_unget_c (fy_atom_iter_start 8 (text_atom FYAS_PLAIN FYAC_CLIP 0 (ascii ''ab''))) = - 1 \<and>
   fy_atom_iter_ungetc (fy_atom_iter_start 8 (text_atom FYAS_PLAIN FYAC_CLIP 0 (ascii ''ab''))) 65
     = (65, (fy_atom_iter_start 8 (text_atom FYAS_PLAIN FYAC_CLIP 0 (ascii ''ab'')))
               \<lparr>it_unget_c := 65\<rparr>) \<and>
   fy_atom_iter_getc ((fy_atom_iter_start 8 (text_atom FYAS_PLAIN FYAC_CLIP 0 (ascii ''ab'')))
               \<lparr>it_unget_c := 65\<rparr>)
     = Some (65, fy_atom_iter_start 8 (text_atom FYAS_PLAIN FYAC_CLIP 0 (ascii ''ab''))) \<and>
   fy_atom_iter_ungetc ((fy_atom_iter_start 8 (text_atom FYAS_PLAIN FYAC_CLIP 0 (ascii ''ab'')))
               \<lparr>it_unget_c := 65\<rparr>) 66
     = (- 1, (fy_atom_iter_start 8 (text_atom FYAS_PLAIN FYAC_CLIP 0 (ascii ''ab'')))
               \<lparr>it_unget_c := 65\<rparr>)"
proof -
  have u: "it_unget_c (fy_atom_iter_start 8 (text_atom FYAS_PLAIN FYAC_CLIP 0 (ascii ''ab''))) = - 1"
    by (simp add: fy_atom_iter_start_def Let_def)
  show ?thesis
    using u ungetc_then_getc [OF u, of 65 66] by simp
qed


section \<open>Comparing two direct-output atoms\<close>

lemma memcmp_eq_0_iff: "memcmp p q n = 0 \<longleftrightarrow> (\<forall>i<n. byte_at p i = byte_at q i)"
proof (induction n arbitrary: p q)
  case 0
  then show ?case by simp
next
  case (Suc n)
  have tl_at: "\<And>xs i. byte_at (tl xs) i = byte_at xs (Suc i)"
    by (case_tac xs) (simp_all add: byte_at_def)
  show ?case
  proof (cases "byte_at p 0 = byte_at q 0")
    case True
    then show ?thesis
      using Suc.IH [of "tl p" "tl q"]
      by (auto simp add: tl_at less_Suc_eq_0_disj)
  next
    case False
    then have "uint (byte_at p 0) \<noteq> uint (byte_at q 0)"
      by (simp add: word_uint_eq_iff)
    with False show ?thesis by auto
  qed
qed

text \<open>
  For two different pointers to direct-output atoms, \<^verbatim>\<open>fy_atom_cmp\<close> is \<^verbatim>\<open>memcmp\<close> over the
  common length, then the lengths.
\<close>

lemma fy_atom_cmp_direct_distinct:
  assumes "p1 \<noteq> p2" "h p1 = Some a1" "h p2 = Some a2" "direct_output a1" "direct_output a2"
  shows "fy_atom_cmp mem h (Some p1) (Some p2) =
           Some (let l1 = fy_atom_size a1; l2 = fy_atom_size a2;
                     ret = memcmp (drop (fy_atom_data a1) (fyi a1)) (drop (fy_atom_data a2) (fyi a2))
                             (min l1 l2)
                 in if ret \<noteq> 0 then ret else if l1 = l2 then 0 else if l2 > l1 then - 1 else 1)"
  using assms by (simp add: fy_atom_cmp_def Let_def min_def)

text \<open>
  C6 (the code departs from the claim). When the two arguments of \<^verbatim>\<open>fy_atom_cmp\<close> are the
  same pointer, the function returns through its first test, \<^verbatim>\<open>if (atom1 == atom2)
  return true;\<close>, and the result is \<open>1\<close>, not the \<open>0\<close> that its \<^verbatim>\<open>memcmp\<close> path returns for
  equal contents: an atom compared with itself does not compare equal.
\<close>

theorem fy_atom_cmp_same_pointer: "fy_atom_cmp mem h atom atom = Some 1"
  by (simp add: fy_atom_cmp_def)


section \<open>Chunks, \<^verbatim>\<open>getc\<close> and \<^verbatim>\<open>read\<close>\<close>

text \<open>
  C3 (the code departs from the claim). The atom is the plain scalar of the spec's first
  scenario, \<^verbatim>\<open>hello\n  world\n\<close>. Its chunks, concatenated by \<^verbatim>\<open>fy_atom_format_text\<close>, and the
  bytes from \<^verbatim>\<open>fy_atom_iter_getc\<close> are both \<^verbatim>\<open>hello world\<close>. One \<^verbatim>\<open>fy_atom_iter_read\<close> of the
  whole length 11 returns 11, but the destination, eleven zero bytes before the call,
  holds \<^verbatim>\<open>world\<close> and six zero bytes: the loop copies each chunk to the start of the
  destination, since \<^verbatim>\<open>buf\<close> is not moved forward after \<^verbatim>\<open>memcpy(buf, ic->str, nrun)\<close>.
\<close>

theorem read_overwrites_destination:
  "fy_atom_format_text 8
     (Some (text_atom FYAS_PLAIN FYAC_CLIP 0 (ascii ''hello'' @ [0x0a] @ ascii ''  world'' @ [0x0a])))
     False 11 = Some (Some (ascii ''hello world'')) \<and>
   getc_all (fy_atom_iter_start 8
     (text_atom FYAS_PLAIN FYAC_CLIP 0 (ascii ''hello'' @ [0x0a] @ ascii ''  world'' @ [0x0a])))
     = Some (ascii ''hello world'') \<and>
   map_option (\<lambda>(n, buf, iter). (n, buf))
     (fy_atom_iter_read (fy_atom_iter_start 8
        (text_atom FYAS_PLAIN FYAC_CLIP 0 (ascii ''hello'' @ [0x0a] @ ascii ''  world'' @ [0x0a])))
        (replicate 11 0) 11)
     = Some (11, ascii ''world'' @ replicate 6 0)"
  by code_simp


section \<open>The emitter's line and column\<close>

lemma put_Some: "0 \<le> c \<Longrightarrow> \<exists>bs. fy_utf8_put_unchecked c = Some bs"
  by (simp add: fy_utf8_put_unchecked_def)

lemma is_break_simps [simp]:
  "is_break (Point c) = False" "is_break (Break b) = True" "is_break (Csi ps) = False"
  by (simp_all add: is_break_def)

lemma is_point_simps [simp]:
  "is_point (Point c) = True" "is_point (Break b) = False" "is_point (Csi ps) = False"
  by (simp_all add: is_point_def)

lemma spec_column_Cons: "spec_column col (t # ts) = spec_column (spec_step col t) ts"
proof (cases "list_ex is_break ts")
  case True
  then have "\<exists>x\<in>set (rev ts). \<not> \<not> is_break x" by (simp add: list_ex_iff)
  then have "takeWhile (\<lambda>t. \<not> is_break t) (rev ts @ [t]) = takeWhile (\<lambda>t. \<not> is_break t) (rev ts)"
    by (auto simp add: takeWhile_append1)
  with True show ?thesis by (simp add: spec_column_def)
next
  case False
  then have nb: "\<And>x. x \<in> set (rev ts) \<Longrightarrow> \<not> is_break x" by (simp add: list_ex_iff)
  have a: "\<And>u. takeWhile (\<lambda>t. \<not> is_break t) (rev ts @ [u]) =
      rev ts @ takeWhile (\<lambda>t. \<not> is_break t) [u]"
    by (rule takeWhile_append2) (rule nb)
  have b: "takeWhile (\<lambda>t. \<not> is_break t) (rev ts) = rev ts"
    using nb by (simp add: takeWhile_eq_all_conv)
  show ?thesis using False
    by (cases t) (simp_all add: spec_column_def spec_step_def a b)
qed

lemma spec_line_Cons: "spec_line ln (t # ts) = spec_line (if is_break t then ln + 1 else ln) ts"
  by (simp add: spec_line_def)

lemma byte_at_append_right: "byte_at (pre @ xs) (length pre + k) = byte_at xs k"
  by (simp add: byte_at_def)

lemma byte_at_Cons_0: "byte_at (x # xs) 0 = x"
  by (simp add: byte_at_def)

lemma byte_at_Cons_Suc: "byte_at (x # xs) (Suc n) = byte_at xs n"
  by (simp add: byte_at_def)

lemma memchr_first:
  assumes "ch \<notin> set a" "length a < n"
  shows "memchr (pre @ a @ ch # rest) (length pre) ch n = Some (length pre + length a)"
proof -
  let ?P = "\<lambda>i. byte_at (pre @ a @ ch # rest) i = ch"
  let ?xs = "[length pre..<length pre + n]"
  have at: "\<And>k. byte_at (pre @ a @ ch # rest) (length pre + k) = byte_at (a @ ch # rest) k"
    by (rule byte_at_append_right)
  have 1: "length a < length ?xs" using assms(2) by simp
  have 2: "?P (?xs ! length a)" using assms(2) by (simp add: at byte_at_def)
  have 3: "\<forall>j<length a. \<not> ?P (?xs ! j)"
  proof (intro allI impI)
    fix j assume j: "j < length a"
    then have "byte_at (a @ ch # rest) j = a ! j" by (simp add: byte_at_def nth_append)
    moreover have "a ! j \<noteq> ch" using assms(1) j by (metis nth_mem)
    ultimately show "\<not> ?P (?xs ! j)" using j assms(2) by (simp add: at)
  qed
  have "find ?P ?xs = Some (?xs ! length a)"
    unfolding find_Some_iff using 1 2 3 by blast
  then show ?thesis using assms(2) by (simp add: memchr_def)
qed

lemma render_Cons: "render (t # ts) = render_item t @ render ts"
  by (simp add: render_def)

text \<open>The first byte of what follows a lone carriage return is not a line feed.\<close>

lemma render_not_lf:
  assumes "items_ok (Break CR # ts)"
  shows "byte_at (render ts) 0 \<noteq> 0x0a"
proof (cases ts)
  case Nil
  then show ?thesis by (simp add: render_def byte_at_def)
next
  case (Cons t ts')
  show ?thesis
  proof (cases t)
    case (Point c)
    with Cons assms have v: "fy_utf8_is_valid c" "\<not> fy_is_lb c" by (simp_all add: item_ok_def)
    then obtain bs where bs: "fy_utf8_put_unchecked c = Some bs"
      using put_Some [of c] by (auto simp add: fy_utf8_is_valid_def)
    from fy_utf8_put_first_byte [OF v(1) bs]
    have f: "bs \<noteq> []" "if c < 0x80 then bs = [word_of_int c] else hd bs AND 0x80 \<noteq> 0" by simp_all
    have "hd bs \<noteq> 0x0a"
    proof (cases "c < 0x80")
      case True
      with f have "bs = [word_of_int c]" by simp
      moreover have "(word_of_int c :: byte) \<noteq> 0x0a"
      proof
        assume "(word_of_int c :: byte) = 0x0a"
        then have "uint (word_of_int c :: byte) = 10" by simp
        moreover have "uint (word_of_int c :: byte) = c"
          using True v(1) by (simp add: fy_utf8_is_valid_def uint_word_of_int take_bit_int_eq_self)
        ultimately show False using v(2) by (simp add: fy_is_lb_def)
      qed
      ultimately show ?thesis by simp
    next
      case False
      with f have "hd bs AND 0x80 \<noteq> 0" by simp
      then show ?thesis by auto
    qed
    then show ?thesis using Cons Point bs f(1)
      by (cases bs) (simp_all add: render_def render_item_def byte_at_def)
  next
    case (Break b)
    with Cons assms show ?thesis
      by (cases b) (simp_all add: render_def render_item_def byte_at_def)
  next
    case (Csi ps)
    with Cons show ?thesis by (simp add: render_def render_item_def byte_at_def)
  qed
qed

text \<open>The first byte of what follows a lone \<^verbatim>\<open>ESC\<close> is not an opening bracket.\<close>

lemma render_not_bracket:
  assumes "items_ok (Point 0x1b # ts)"
  shows "byte_at (render ts) 0 \<noteq> 0x5b"
proof (cases ts)
  case Nil
  then show ?thesis by (simp add: render_def byte_at_def)
next
  case (Cons t ts')
  show ?thesis
  proof (cases t)
    case (Point c)
    with Cons assms have v: "fy_utf8_is_valid c" "c \<noteq> 0x5b" by (simp_all add: item_ok_def)
    then obtain bs where bs: "fy_utf8_put_unchecked c = Some bs"
      using put_Some [of c] by (auto simp add: fy_utf8_is_valid_def)
    from fy_utf8_put_first_byte [OF v(1) bs]
    have f: "bs \<noteq> []" "if c < 0x80 then bs = [word_of_int c] else hd bs AND 0x80 \<noteq> 0" by simp_all
    have "hd bs \<noteq> 0x5b"
    proof (cases "c < 0x80")
      case True
      with f have "bs = [word_of_int c]" by simp
      moreover have "(word_of_int c :: byte) \<noteq> 0x5b"
      proof
        assume "(word_of_int c :: byte) = 0x5b"
        then have "uint (word_of_int c :: byte) = 0x5b" by simp
        moreover have "uint (word_of_int c :: byte) = c"
          using True v(1) by (simp add: fy_utf8_is_valid_def uint_word_of_int take_bit_int_eq_self)
        ultimately show False using v(2) by simp
      qed
      ultimately show ?thesis by simp
    next
      case False
      with f have "hd bs AND 0x80 \<noteq> 0" by simp
      then show ?thesis by auto
    qed
    then show ?thesis using Cons Point bs f(1)
      by (cases bs) (simp_all add: render_def render_item_def byte_at_def)
  next
    case (Break b)
    with Cons show ?thesis
      by (cases b) (simp_all add: render_def render_item_def byte_at_def)
  next
    case (Csi ps)
    with Cons show ?thesis by (simp add: render_def render_item_def byte_at_def)
  qed
qed

lemma items_ok_tail: "items_ok (t # ts) \<Longrightarrow> items_ok ts"
  by simp

lemma write_loop_end:
  "fy_utf8_get (drop p str) (e - int p) = (- 1, w) \<Longrightarrow> write_loop str e p ln col = (ln, col)"
  by (subst write_loop.simps) simp

lemma write_loop_point:
  "fy_utf8_get (drop p str) (e - int p) = (c, w) \<Longrightarrow> c \<noteq> - 1 \<Longrightarrow> c \<noteq> 0x0d \<Longrightarrow> \<not> fy_is_lb c \<Longrightarrow>
   c \<noteq> 0x1b \<Longrightarrow> write_loop str e p ln col = write_loop str e (p + nat w) ln (col + 1)"
  by (subst write_loop.simps) simp

lemma write_loop_lb:
  "fy_utf8_get (drop p str) (e - int p) = (c, w) \<Longrightarrow> c \<noteq> - 1 \<Longrightarrow> fy_is_lb c \<Longrightarrow>
   \<not> (c = 0x0d \<and> e - int p > 1 \<and> byte_at str (p + 1) = 0x0a) \<Longrightarrow>
   write_loop str e p ln col = write_loop str e (p + nat w) (ln + 1) 0"
  by (subst write_loop.simps) auto

lemma write_loop_crlf:
  "fy_utf8_get (drop p str) (e - int p) = (0x0d, w) \<Longrightarrow> e - int p > 1 \<Longrightarrow>
   byte_at str (p + 1) = 0x0a \<Longrightarrow>
   write_loop str e p ln col = write_loop str e (p + 2) (ln + 1) 0"
  by (subst write_loop.simps) simp

lemma write_loop_csi:
  "fy_utf8_get (drop p str) (e - int p) = (0x1b, w) \<Longrightarrow> e - int p > 2 \<Longrightarrow>
   byte_at str (p + 1) = 0x5b \<Longrightarrow> memchr str p 0x6d (nat (e - int p)) = Some m \<Longrightarrow>
   write_loop str e p ln col = write_loop str e (m + 1) ln col"
  by (subst write_loop.simps) (simp add: fy_is_lb_def)

lemma write_loop_esc:
  "fy_utf8_get (drop p str) (e - int p) = (0x1b, w) \<Longrightarrow> byte_at str (p + 1) \<noteq> 0x5b \<Longrightarrow>
   write_loop str e p ln col = write_loop str e (p + nat w) ln (col + 1)"
  by (subst write_loop.simps) (simp add: fy_is_lb_def)

lemma wi_succ: "(word_of_int x :: c_int) + 1 = word_of_int (x + 1)"
  by simp

lemma get_ascii:
  "b AND 0x80 = 0 \<Longrightarrow> 1 \<le> left \<Longrightarrow> fy_utf8_get (b # rest) left = (uint (b AND 0x7f), 1)"
  by (simp add: fy_utf8_get_def byte_at_def)

lemma write_loop_render:
  assumes "items_ok ts"
  shows "write_loop (pre @ render ts) (int (length (pre @ render ts))) (length pre)
           (word_of_int ln) (word_of_int col)
           = (word_of_int (spec_line ln ts), word_of_int (spec_column col ts))"
  using assms
proof (induction ts arbitrary: pre ln col)
  case Nil
  have "fy_utf8_get (drop (length pre) (pre @ render [])) (int (length (pre @ render [])) - int (length pre)) = (- 1, 0)"
    by (simp add: render_def fy_utf8_get_def)
  from write_loop_end [OF this] show ?case
    by (simp add: spec_line_def spec_column_def)
next
  case (Cons t ts)
  have ok: "items_ok ts" using Cons.prems by (rule items_ok_tail)
  note IH = Cons.IH [OF ok]
  let ?str = "pre @ render (t # ts)"
  let ?e = "int (length ?str)"
  let ?ln = "word_of_int ln :: c_int"
  let ?col = "word_of_int col :: c_int"
  have dr: "drop (length pre) ?str = render_item t @ render ts" by (simp add: render_Cons)
  have el: "?e - int (length pre) = int (length (render_item t)) + int (length (render ts))"
    by (simp add: render_Cons)
  show ?case
  proof (cases t)
    case (Point c)
    with Cons.prems have v: "fy_utf8_is_valid c" "\<not> fy_is_lb c"
      by (simp_all add: item_ok_def)
    then obtain bs where bs: "fy_utf8_put_unchecked c = Some bs"
      using put_Some [of c] by (auto simp add: fy_utf8_is_valid_def)
    have ri: "render_item t = bs" using Point bs by (simp add: render_item_def)
    have g: "fy_utf8_get (drop (length pre) ?str) (?e - int (length pre)) = (c, int (length bs))"
      unfolding dr el ri by (rule fy_utf8_get_put_append [OF v(1) bs]) simp
    have c: "c \<noteq> - 1" "c \<noteq> 0x0d" using v by (simp_all add: fy_utf8_is_valid_def fy_is_lb_def)
    have "write_loop ?str ?e (length pre) ?ln ?col
        = write_loop ?str ?e (length pre + nat (int (length bs))) ?ln (?col + 1)"
    proof (cases "c = 0x1b")
      case False
      show ?thesis by (rule write_loop_point [OF g c v(2) False])
    next
      case True
      have "items_ok (Point 0x1b # ts)" using Cons.prems Point True by simp
      from render_not_bracket [OF this] have "byte_at (render ts) 0 \<noteq> 0x5b" .
      moreover have "bs = [0x1b]" using bs True by (simp add: fy_utf8_put_unchecked_def)
      ultimately have nb: "byte_at ?str (length pre + 1) \<noteq> 0x5b"
        by (simp only: byte_at_append_right render_Cons ri)
          (simp add: byte_at_Cons_Suc)
      from g True have g': "fy_utf8_get (drop (length pre) ?str) (?e - int (length pre))
          = (0x1b, int (length bs))" by simp
      show ?thesis by (rule write_loop_esc [OF g' nb])
    qed
    also have "\<dots> = write_loop ((pre @ bs) @ render ts) (int (length ((pre @ bs) @ render ts)))
         (length (pre @ bs)) ?ln (word_of_int (col + 1))"
      by (simp add: render_Cons ri)
    also have "\<dots> = (word_of_int (spec_line ln ts), word_of_int (spec_column (col + 1) ts))"
      by (rule IH)
    finally show ?thesis
      using Point by (simp add: spec_column_Cons spec_line_Cons spec_step_def)
  next
    case (Break b)
    show ?thesis
    proof (cases b)
      case LF
      have ri: "render_item t = [0x0a]" using Break LF by (simp add: render_item_def)
      have g: "fy_utf8_get (drop (length pre) ?str) (?e - int (length pre)) = (0x0a, 1)"
        unfolding dr el ri using get_ascii [of "0x0a" "1 + int (length (render ts))" "render ts"]
        by simp
      have "write_loop ?str ?e (length pre) ?ln ?col
          = write_loop ?str ?e (length pre + nat 1) (?ln + 1) 0"
        by (rule write_loop_lb [OF g]) (simp_all add: fy_is_lb_def)
      also have "\<dots> = write_loop ((pre @ [0x0a]) @ render ts) (int (length ((pre @ [0x0a]) @ render ts)))
           (length (pre @ [0x0a])) (word_of_int (ln + 1)) (word_of_int 0)"
        by (simp add: render_Cons ri)
      also have "\<dots> = (word_of_int (spec_line (ln + 1) ts), word_of_int (spec_column 0 ts))"
        by (rule IH)
      finally show ?thesis
        using Break by (simp add: spec_column_Cons spec_line_Cons spec_step_def)
    next
      case CR
      have ri: "render_item t = [0x0d]" using Break CR by (simp add: render_item_def)
      have g: "fy_utf8_get (drop (length pre) ?str) (?e - int (length pre)) = (0x0d, 1)"
        unfolding dr el ri using get_ascii [of "0x0d" "1 + int (length (render ts))" "render ts"]
        by simp
      have "items_ok (Break CR # ts)" using Cons.prems Break CR by simp
      from render_not_lf [OF this] have "byte_at ?str (length pre + 1) \<noteq> 0x0a"
        by (simp only: byte_at_append_right render_Cons ri)
          (simp add: byte_at_Cons_Suc)
      then have "write_loop ?str ?e (length pre) ?ln ?col
          = write_loop ?str ?e (length pre + nat 1) (?ln + 1) 0"
        by (intro write_loop_lb [OF g]) (simp_all add: fy_is_lb_def)
      also have "\<dots> = write_loop ((pre @ [0x0d]) @ render ts) (int (length ((pre @ [0x0d]) @ render ts)))
           (length (pre @ [0x0d])) (word_of_int (ln + 1)) (word_of_int 0)"
        by (simp add: render_Cons ri)
      also have "\<dots> = (word_of_int (spec_line (ln + 1) ts), word_of_int (spec_column 0 ts))"
        by (rule IH)
      finally show ?thesis
        using Break by (simp add: spec_column_Cons spec_line_Cons spec_step_def)
    next
      case CRLF
      have ri: "render_item t = [0x0d, 0x0a]" using Break CRLF by (simp add: render_item_def)
      have g: "fy_utf8_get (drop (length pre) ?str) (?e - int (length pre)) = (0x0d, 1)"
        unfolding dr el ri
        using get_ascii [of "0x0d" "2 + int (length (render ts))" "0x0a # render ts"]
        by simp
      have "byte_at ?str (length pre + 1) = 0x0a"
        by (simp only: byte_at_append_right render_Cons ri)
          (simp add: byte_at_Cons_Suc byte_at_Cons_0)
      then have "write_loop ?str ?e (length pre) ?ln ?col
          = write_loop ?str ?e (length pre + 2) (?ln + 1) 0"
        by (intro write_loop_crlf [OF g]) (simp_all add: render_Cons ri)
      also have "\<dots> = write_loop ((pre @ [0x0d, 0x0a]) @ render ts)
           (int (length ((pre @ [0x0d, 0x0a]) @ render ts)))
           (length (pre @ [0x0d, 0x0a])) (word_of_int (ln + 1)) (word_of_int 0)"
        by (simp add: render_Cons ri)
      also have "\<dots> = (word_of_int (spec_line (ln + 1) ts), word_of_int (spec_column 0 ts))"
        by (rule IH)
      finally show ?thesis
        using Break by (simp add: spec_column_Cons spec_line_Cons spec_step_def)
    qed
  next
    case (Csi ps)
    with Cons.prems have par: "list_all (\<lambda>b. 0x30 \<le> b \<and> b \<le> 0x3f) ps" by (simp add: item_ok_def)
    have nom: "0x6d \<notin> set ps"
    proof
      assume "0x6d \<in> set ps"
      with par have "(0x6d :: byte) \<le> 0x3f" by (auto simp add: list_all_iff)
      then show False by simp
    qed
    have ri: "render_item t = 0x1b # 0x5b # ps @ [0x6d]" using Csi by (simp add: render_item_def)
    have g: "fy_utf8_get (drop (length pre) ?str) (?e - int (length pre)) = (0x1b, 1)"
      unfolding dr el ri
      using get_ascii [of "0x1b" "3 + int (length ps) + int (length (render ts))"
          "0x5b # ps @ [0x6d] @ render ts"]
      by simp
    have b1: "byte_at ?str (length pre + 1) = 0x5b"
      by (simp only: byte_at_append_right render_Cons ri)
        (simp add: byte_at_Cons_Suc byte_at_Cons_0)
    have "0x6d \<notin> set (0x1b # 0x5b # ps)" using nom by simp
    from memchr_first [OF this, of "nat (?e - int (length pre))" pre "render ts"]
    have m: "memchr ?str (length pre) 0x6d (nat (?e - int (length pre)))
        = Some (length pre + length (0x1b # 0x5b # ps))"
      by (simp add: render_Cons ri)
    have "write_loop ?str ?e (length pre) ?ln ?col
        = write_loop ?str ?e (length pre + length (0x1b # 0x5b # ps) + 1) ?ln ?col"
      by (rule write_loop_csi [OF g _ b1 m]) (simp add: render_Cons ri)
    also have "\<dots> = write_loop ((pre @ 0x1b # 0x5b # ps @ [0x6d]) @ render ts)
         (int (length ((pre @ 0x1b # 0x5b # ps @ [0x6d]) @ render ts)))
         (length (pre @ 0x1b # 0x5b # ps @ [0x6d])) ?ln ?col"
      by (simp add: render_Cons ri)
    also have "\<dots> = (word_of_int (spec_line ln ts), word_of_int (spec_column col ts))" by (rule IH)
    finally show ?thesis
      using Csi by (simp add: spec_column_Cons spec_line_Cons spec_step_def)
  qed
qed

section \<open>Line and column of the emitter\<close>

lemma spec_column_Nil: "spec_column col [] = col"
  by (simp add: spec_column_def)

lemma spec_column_append: "spec_column col (a @ b) = spec_column (spec_column col a) b"
  by (induction a arbitrary: col) (simp_all add: spec_column_Nil spec_column_Cons)

lemma spec_line_append: "spec_line ln (a @ b) = spec_line (spec_line ln a) b"
  by (simp add: spec_line_def)

lemma spec_line_ge: "ln \<le> spec_line ln ts"
  by (simp add: spec_line_def)

lemma spec_column_ge: "min 0 col \<le> spec_column col ts"
  by (simp add: spec_column_def min_def)

lemma fy_emit_write_lc:
  "len \<noteq> 0 \<Longrightarrow> write_loop str len 0 (em_line emit) (em_column emit) = (ln, col) \<Longrightarrow>
   em_line (fy_emit_write emit type str len) = ln \<and>
   em_column (fy_emit_write emit type str len) = col"
  by (simp add: fy_emit_write_def Let_def case_prod_beta)

lemma write_loop_empty: "write_loop [] 0 0 ln col = (ln, col)"
proof -
  have "fy_utf8_get (drop 0 []) (0 - int 0) = (- 1, 0)" by (simp add: fy_utf8_get_def)
  from write_loop_end [OF this] show ?thesis .
qed

lemma fy_emit_write_render:
  assumes "items_ok ts" "em_line emit = word_of_int ln" "em_column emit = word_of_int col"
  shows "em_line (fy_emit_write emit type (render ts) (int (length (render ts))))
           = word_of_int (spec_line ln ts) \<and>
         em_column (fy_emit_write emit type (render ts) (int (length (render ts))))
           = word_of_int (spec_column col ts)"
proof -
  have w: "write_loop (render ts) (int (length (render ts))) 0 (em_line emit) (em_column emit)
      = (word_of_int (spec_line ln ts), word_of_int (spec_column col ts))"
    using write_loop_render [OF assms(1), of "[]" ln col] assms(2,3) by simp
  show ?thesis
  proof (cases "render ts = []")
    case True
    from w True
    have "word_of_int (spec_line ln ts) = em_line emit \<and>
          word_of_int (spec_column col ts) = em_column emit"
      by (simp add: write_loop_empty)
    then show ?thesis using True by (simp add: fy_emit_write_def)
  next
    case False
    then have "int (length (render ts)) \<noteq> 0" by simp
    from fy_emit_write_lc [OF this w] show ?thesis .
  qed
qed

lemma emit_writes_counters:
  assumes "\<forall>(type, ts) \<in> set calls. items_ok ts"
    and "em_line emit = word_of_int ln" "em_column emit = word_of_int col"
  shows "em_line (emit_writes emit calls) = word_of_int (spec_line ln (concat (map snd calls))) \<and>
         em_column (emit_writes emit calls) = word_of_int (spec_column col (concat (map snd calls)))"
  using assms
proof (induction calls arbitrary: emit ln col)
  case Nil
  then show ?case by (simp add: emit_writes_def spec_line_def spec_column_Nil)
next
  case (Cons call calls)
  obtain type ts where call: "call = (type, ts)" by (cases call)
  have ok: "items_ok ts" using Cons.prems(1) call by simp
  let ?e1 = "fy_emit_write emit type (render ts) (int (length (render ts)))"
  have step: "emit_writes emit (call # calls) = emit_writes ?e1 calls"
    by (simp add: emit_writes_def call)
  have more: "\<forall>(type, ts) \<in> set calls. items_ok ts" using Cons.prems(1) by simp
  from fy_emit_write_render [OF ok Cons.prems(2,3), of type]
  have l1: "em_line ?e1 = word_of_int (spec_line ln ts)"
    and c1: "em_column ?e1 = word_of_int (spec_column col ts)" by simp_all
  show ?case
    unfolding step
    using Cons.IH [OF more l1 c1]
    by (simp add: call spec_line_append spec_column_append)
qed

lemma sint_of_int_in_range:
  "- (2 ^ 31) \<le> x \<Longrightarrow> x < 2 ^ 31 \<Longrightarrow> sint (word_of_int x :: c_int) = x"
  by (simp add: signed_of_int signed_take_bit_int_eq_self)

lemma sint_c_int_lower: "- (2 ^ 31) \<le> sint (w :: c_int)"
  using sint_ge [of w] by simp

text \<open>
  C4 (as the code has it). Take any sequence of \<^verbatim>\<open>fy_emit_write\<close> calls in which the bytes
  of every single call are a whole text of fewer than \<open>2\<^sup>3\<^sup>1\<close> bytes (the length is passed
  as an \<^verbatim>\<open>int\<close>): a sequence of valid code points other than
  line breaks, of line breaks (LF, CR, or the pair CR LF written in one call) and of
  complete sequences \<^verbatim>\<open>ESC [ ... m\<close> whose parameter bytes are in the range \<^verbatim>\<open>0x30\<close> to \<^verbatim>\<open>0x3f\<close>, an
  \<^verbatim>\<open>ESC\<close> that does not open such a sequence not being followed by \<^verbatim>\<open>[\<close>. Then after the calls
  the line counter has grown by the number of line breaks written, and the column
  counter is the number of code points written after the last line break (counted on
  from the column before the calls when no line break was written): a CR LF pair is one
  line break, a CSI sequence counts no column, every other code point, a lone \<^verbatim>\<open>ESC\<close>
  too, counts one. The counters are C \<^verbatim>\<open>int\<close> fields, so the two numbers are what they hold
  modulo \<open>2\<^sup>3\<^sup>2\<close>, and what they hold exactly as long as the numbers stay below \<open>2\<^sup>3\<^sup>1\<close>.
\<close>

theorem emit_writes_line_column:
  assumes "\<forall>(type, ts) \<in> set calls. items_ok ts \<and> length (render ts) < 2 ^ 31"
  shows "em_line (emit_writes emit calls)
           = word_of_int (spec_line (sint (em_line emit)) (concat (map snd calls))) \<and>
         em_column (emit_writes emit calls)
           = word_of_int (spec_column (sint (em_column emit)) (concat (map snd calls))) \<and>
         (spec_line (sint (em_line emit)) (concat (map snd calls)) < 2 ^ 31 \<longrightarrow>
            sint (em_line (emit_writes emit calls))
              = spec_line (sint (em_line emit)) (concat (map snd calls))) \<and>
         (spec_column (sint (em_column emit)) (concat (map snd calls)) < 2 ^ 31 \<longrightarrow>
            sint (em_column (emit_writes emit calls))
              = spec_column (sint (em_column emit)) (concat (map snd calls)))"
proof -
  let ?ts = "concat (map snd calls)"
  let ?l = "spec_line (sint (em_line emit)) ?ts"
  let ?c = "spec_column (sint (em_column emit)) ?ts"
  have "em_line emit = word_of_int (sint (em_line emit))"
    "em_column emit = word_of_int (sint (em_column emit))" by simp_all
  moreover have "\<forall>(type, ts) \<in> set calls. items_ok ts" using assms by auto
  ultimately have "em_line (emit_writes emit calls) = word_of_int ?l \<and>
      em_column (emit_writes emit calls) = word_of_int ?c"
    by (intro emit_writes_counters)
  then
  have l: "em_line (emit_writes emit calls) = word_of_int ?l"
    and c: "em_column (emit_writes emit calls) = word_of_int ?c" by simp_all
  have ll: "- (2 ^ 31) \<le> ?l"
    using spec_line_ge [of "sint (em_line emit)" ?ts] sint_c_int_lower [of "em_line emit"]
    by linarith
  have cl: "- (2 ^ 31) \<le> ?c"
    using spec_column_ge [of "sint (em_column emit)" ?ts] sint_c_int_lower [of "em_column emit"]
    by (simp add: min_def split: if_splits)
  have 3: "?l < 2 ^ 31 \<longrightarrow> sint (em_line (emit_writes emit calls)) = ?l"
    unfolding l using sint_of_int_in_range [OF ll] by blast
  have 4: "?c < 2 ^ 31 \<longrightarrow> sint (em_column (emit_writes emit calls)) = ?c"
    unfolding c using sint_of_int_in_range [OF cl] by blast
  from l c 3 4 show ?thesis by blast
qed

theorem emit_writes_line_column_witness:
  "items_ok [Point 0x61, Csi [0x33, 0x31], Point 0x2713, Break CRLF, Point 0x1b, Point 0x62] \<and>
   items_ok [Point 0x63] \<and>
   sint (em_line (emit_writes (bounded_emitter 100)
      [(fyewt_plain_scalar,
        [Point 0x61, Csi [0x33, 0x31], Point 0x2713, Break CRLF, Point 0x1b, Point 0x62]),
       (fyewt_plain_scalar, [Point 0x63])])) = 1 \<and>
   sint (em_column (emit_writes (bounded_emitter 100)
      [(fyewt_plain_scalar,
        [Point 0x61, Csi [0x33, 0x31], Point 0x2713, Break CRLF, Point 0x1b, Point 0x62]),
       (fyewt_plain_scalar, [Point 0x63])])) = 3"
  using emit_writes_line_column [of
      "[(fyewt_plain_scalar,
         [Point 0x61, Csi [0x33, 0x31], Point 0x2713, Break CRLF, Point 0x1b, Point 0x62]),
       (fyewt_plain_scalar, [Point 0x63])]" "bounded_emitter 100"]
  by (simp add: item_ok_def fy_utf8_is_valid_def fy_is_lb_def bounded_emitter_def
      spec_line_def spec_column_def render_def render_item_def fy_utf8_put_unchecked_def)

text \<open>
  The position is computed call by call, from the bytes of that call alone. The sequence
  \<^verbatim>\<open>ESC [ 3 1 m\<close> written in one call leaves the column at 0; the same five bytes written
  in two calls, \<^verbatim>\<open>ESC [ 3\<close> and then \<^verbatim>\<open>1 m\<close>, move the column to 5, since no \<^verbatim>\<open>m\<close> is
  found in the first call and the second call does not start with \<^verbatim>\<open>ESC\<close>.
\<close>

theorem split_csi_counts_columns:
  "render [Csi [0x33, 0x31]] = [0x1b, 0x5b, 0x33] @ [0x31, 0x6d] \<and>
   spec_column 0 [Csi [0x33, 0x31]] = 0 \<and>
   em_column (fy_emit_write (bounded_emitter 100) fyewt_plain_scalar
      ([0x1b, 0x5b, 0x33] @ [0x31, 0x6d]) 5) = 0 \<and>
   em_column (fy_emit_write
      (fy_emit_write (bounded_emitter 100) fyewt_plain_scalar [0x1b, 0x5b, 0x33] 3)
      fyewt_plain_scalar [0x31, 0x6d] 2) = 5"
  by code_simp
section \<open>The output error bit\<close>

lemma fy_emit_write_output_error:
  "em_output_error (fy_emit_write emit type str len) \<longleftrightarrow>
     em_output_error emit \<or>
     (len \<noteq> 0 \<and> fst (cfg_output (em_cfg emit) (em_userdata emit) type str len) \<noteq> len)"
  by (simp add: fy_emit_write_def Let_def case_prod_beta)

lemma fy_emit_write_userdata:
  "len \<noteq> 0 \<Longrightarrow>
   em_userdata (fy_emit_write emit type str len)
     = snd (cfg_output (em_cfg emit) (em_userdata emit) type str len)"
  by (simp add: fy_emit_write_def Let_def case_prod_beta)

lemma fy_emit_write_fyds: "em_fyds (fy_emit_write emit type str len) = em_fyds emit"
  by (simp add: fy_emit_write_def Let_def case_prod_beta)

lemma fy_emit_write_cfg: "em_cfg (fy_emit_write emit type str len) = em_cfg emit"
  by (simp add: fy_emit_write_def Let_def case_prod_beta)

lemma fy_emit_writes_output_error:
  "em_output_error emit \<Longrightarrow> em_output_error (fy_emit_writes emit ws)"
  unfolding fy_emit_writes_def
  by (induction ws arbitrary: emit) (auto simp add: fy_emit_write_output_error)

lemma fy_emit_puts_fyds: "em_fyds (fy_emit_puts emit type str) = em_fyds emit"
  by (simp add: fy_emit_puts_def fy_emit_write_fyds)

lemma fy_emit_putc_fyds: "em_fyds (fy_emit_putc emit type c) = em_fyds emit"
  by (simp add: fy_emit_putc_def fy_emit_puts_fyds)

lemma fy_emit_printf_fyds: "em_fyds (fy_emit_printf emit type str) = em_fyds emit"
  by (simp add: fy_emit_printf_def fy_emit_write_fyds)

lemma fy_emit_puts_output_error:
  "em_output_error emit \<Longrightarrow> em_output_error (fy_emit_puts emit type str)"
  by (simp add: fy_emit_puts_def fy_emit_write_output_error)

lemma fy_emit_putc_output_error:
  "em_output_error emit \<Longrightarrow> em_output_error (fy_emit_putc emit type c)"
  by (simp add: fy_emit_putc_def fy_emit_puts_output_error)

lemma tag_directives_loop_fyds:
  "em_fyds (fst (tag_directives_loop tds emit had)) = em_fyds emit"
  by (induction tds emit had rule: tag_directives_loop.induct)
     (simp_all add: Let_def fy_emit_putc_fyds fy_emit_printf_fyds)

lemma fyds_if: "em_fyds (if c then a else b) = (if c then em_fyds a else em_fyds b)"
  by simp

lemma fy_emit_common_document_start_ok:
  assumes "em_fyds emit = None"
  shows "fst (fy_emit_common_document_start emit (Some fyds) rta) = 0 \<and>
         em_fyds (snd (fy_emit_common_document_start emit (Some fyds) rta)) = Some fyds"
proof -
  define cfg where "cfg = em_cfg emit"
  define strip where "strip = cfg_strip_doc cfg"
  define json where "json = fy_emit_is_json_mode emit"
  define emit1 where "emit1 = emit\<lparr>em_fyds := Some fyds\<rparr>"
  define vd where "vd = (((cfg_version_dir cfg = MARK_AUTO \<and> version_explicit fyds) \<or>
                       cfg_version_dir cfg = MARK_ON) \<and> \<not> strip)"
  define td where "td = (((cfg_tag_dir cfg = MARK_AUTO \<and> tags_explicit fyds) \<or>
                       cfg_tag_dir cfg = MARK_ON) \<and> \<not> strip)"
  define emit2 where "emit2 =
                  (if \<not> json \<and> (vd \<or> td) \<and> FYEF_HAD_DOCUMENT_END \<notin> em_flags emit1 then
                     let e1 = (if em_column emit1 \<noteq> 0
                               then fy_emit_putc emit1 fyewt_linebreak 0x0a else emit1)
                     in if \<not> strip then
                          let e2 = fy_emit_puts e1 fyewt_document_indicator [0x2e, 0x2e, 0x2e, 0]
                          in e2\<lparr>em_flags := (em_flags e2 - {FYEF_WHITESPACE}) \<union>
                                              {FYEF_HAD_DOCUMENT_END}\<rparr>
                        else e1
                   else emit1)"
  define emit3 where "emit3 =
                  (if \<not> json \<and> vd then
                     let e1 = (if em_column emit2 \<noteq> 0
                               then fy_emit_putc emit2 fyewt_linebreak 0x0a else emit2);
                         e2 = fy_emit_printf e1 fyewt_version_directive
                                ([0x25, 0x59, 0x41, 0x4d, 0x4c, 0x20] @ fmt_d (version_major fyds) @
                                 [0x2e] @ fmt_d (version_minor fyds));
                         e3 = fy_emit_putc e2 fyewt_linebreak 0x0a
                     in e3\<lparr>em_flags := {FYEF_WHITESPACE, FYEF_INDENTATION}\<rparr>
                   else emit2)"
  define r4 where "r4 = (if \<not> json \<and> td then tag_directives_loop (fyt_td fyds) emit3 False
                   else (emit3, False))"
  define emit4 where "emit4 = fst r4"
  define had where "had = snd r4"
  define dsm0 where "dsm0 = ((cfg_doc_start_mark cfg = MARK_AUTO \<and>
                         (\<not> start_implicit fyds \<or> tags_explicit fyds \<or> version_explicit fyds \<or>
                          had)) \<or>
                        cfg_doc_start_mark cfg = MARK_ON)"
  define dsm where "dsm = (if \<not> dsm0 \<and> FYEF_HAD_DOCUMENT_OUTPUT \<in> em_flags emit4 \<and>
                          FYEF_HAD_DOCUMENT_END \<notin> em_flags emit4
                       then True else dsm0)"
  define emit5 where "emit5 =
                  (if \<not> json \<and> dsm then
                     let e1 = (if em_column emit4 \<noteq> 0
                               then fy_emit_putc emit4 fyewt_linebreak 0x0a else emit4)
                     in if \<not> strip then
                          let e2 = fy_emit_puts e1 fyewt_document_indicator [0x2d, 0x2d, 0x2d, 0]
                          in e2\<lparr>em_flags := (em_flags e2 - {FYEF_WHITESPACE}) \<union>
                                              {FYEF_HAD_DOCUMENT_START}\<rparr>
                        else e1
                   else emit4\<lparr>em_flags := em_flags emit4 - {FYEF_HAD_DOCUMENT_START}\<rparr>)"
  have eq: "fy_emit_common_document_start emit (Some fyds) rta
      = (0, emit5\<lparr>em_flags := em_flags emit5 - {FYEF_HAD_DOCUMENT_END}\<rparr>)"
    unfolding fy_emit_common_document_start_def emit5_def dsm_def dsm0_def had_def emit4_def
      r4_def emit3_def emit2_def td_def vd_def emit1_def json_def strip_def cfg_def
    using assms by (simp only: Let_def case_prod_beta option.case if_False simp_thms)
  have f1: "em_fyds emit1 = Some fyds" by (simp add: emit1_def)
  have f2: "em_fyds emit2 = Some fyds"
    unfolding emit2_def Let_def by (simp add: fyds_if fy_emit_putc_fyds fy_emit_puts_fyds f1)
  have f3: "em_fyds emit3 = Some fyds"
    unfolding emit3_def Let_def by (simp add: fyds_if fy_emit_putc_fyds fy_emit_printf_fyds f2)
  have f4: "em_fyds emit4 = Some fyds"
    unfolding emit4_def r4_def by (simp add: tag_directives_loop_fyds f3)
  have f5: "em_fyds emit5 = Some fyds"
    unfolding emit5_def Let_def by (simp add: fyds_if fy_emit_putc_fyds fy_emit_puts_fyds f4)
  show ?thesis using eq f5 by simp
qed

lemma fy_emit_document_start_ok:
  assumes "em_fyds emit = None" "fyd_fyds fyd = Some fyds"
  shows "fst (fy_emit_document_start emit (Some fyd)) = 0 \<and>
         em_fyds (snd (fy_emit_document_start emit (Some fyd))) = Some fyds"
  using assms fy_emit_common_document_start_ok [OF assms(1), of fyds "fyd_root_tag_or_anchor fyd"]
  by (simp add: fy_emit_document_start_def Let_def case_prod_beta)

lemma fy_emit_document_end_ok:
  assumes "em_fyds emit = Some fyds"
  shows "fst (fy_emit_document_end emit) = 0"
  using assms
  by (simp add: fy_emit_document_end_def fy_emit_common_document_end_def Let_def)

lemma fy_emit_root_node_ok:
  assumes "keeps_fyds nw"
  shows "fst (fy_emit_root_node nw emit (Some fyn)) = 0 \<and>
         em_fyds (snd (fy_emit_root_node nw emit (Some fyn))) = em_fyds emit"
  using assms by (simp add: fy_emit_root_node_def Let_def keeps_fyds_def)

lemma fy_emit_document_ok:
  assumes "em_fyds emit = None" "fyd_fyds fyd = Some fyds" "fyd_root fyd = Some fyn" "keeps_fyds nw"
  shows "fst (fy_emit_document nw emit (Some fyd)) = 0"
proof -
  obtain rc e1 where s: "fy_emit_document_start emit (Some fyd) = (rc, e1)"
    by (cases "fy_emit_document_start emit (Some fyd)")
  from fy_emit_document_start_ok [OF assms(1,2)] s
  have rc: "rc = 0" and f1: "em_fyds e1 = Some fyds"
    by simp_all
  obtain rc2 e2 where r: "fy_emit_root_node nw e1 (Some fyn) = (rc2, e2)"
    by (cases "fy_emit_root_node nw e1 (Some fyn)")
  from fy_emit_root_node_ok [OF assms(4), of e1 fyn] r f1
  have rc2: "rc2 = 0" and f2: "em_fyds e2 = Some fyds"
    by simp_all
  show ?thesis
    using s r rc rc2 assms(3) fy_emit_document_end_ok [OF f2]
    by (simp add: fy_emit_document_def)
qed

lemma fy_emit_reset_output_error: "\<not> em_output_error (fy_emit_reset emit b)"
  by (simp add: fy_emit_reset_def)

lemma fy_emit_event_stream_start:
  assumes "em_state emit = FYES_NONE" "em_queued_events emit = []" "ev_type fyep = FYET_STREAM_START"
  shows "\<exists>emit'. fy_emit_event nw emit (Some fyep) = Some (0, emit') \<and>
           \<not> em_output_error emit' \<and> em_state emit' = FYES_FIRST_DOCUMENT_START"
  using assms
  apply (simp add: fy_emit_event_def Let_def)
  apply (subst event_loop.simps)
  apply (simp add: fy_emit_next_event_def fy_emit_ready_def fy_emit_event_dispatch_def
      fy_emit_handle_stream_start_def fy_emit_goto_state_def fy_emit_reset_def)
  apply (subst event_loop.simps)
  apply (simp add: fy_emit_next_event_def fy_emit_ready_def)
  done

lemma fy_emit_write_state:
  "em_state (fy_emit_write emit type str len) = em_state emit \<and>
   em_queued_events (fy_emit_write emit type str len) = em_queued_events emit"
  by (simp add: fy_emit_write_def Let_def case_prod_beta)

lemma fy_emit_writes_cfg: "em_cfg (fy_emit_writes emit ws) = em_cfg emit"
  unfolding fy_emit_writes_def
  by (induction ws arbitrary: emit) (auto simp add: fy_emit_write_cfg)

lemma keeps_fyds_scalar_writers: "keeps_fyds scalar_writers"
  by (simp add: keeps_fyds_def scalar_writers_def fy_emit_write_fyds)

text \<open>
  C8 (as the code has it). When the write callback returns fewer bytes than the \<^verbatim>\<open>len\<close> it
  was given, \<^verbatim>\<open>fy_emit_write\<close> sets \<^verbatim>\<open>output_error\<close>. The bit is only recorded. It stays set
  through any list of later \<^verbatim>\<open>fy_emit_write\<close> calls, each of which still hands its bytes to
  the callback (the user data after it is what the callback returned for them), and only
  \<^verbatim>\<open>fy_emit_reset\<close> clears it. No entry point reports it: \<^verbatim>\<open>fy_emit_document\<close> returns 0 for a
  document that has a state and a root when no document is open, whatever the callback
  does with the writes of the document and whatever the node writers write (as long as
  they leave \<^verbatim>\<open>emit->fyds\<close> alone); \<^verbatim>\<open>fy_emit_event\<close> returns 0 for the stream start event of
  a new stream, whose handler calls \<^verbatim>\<open>fy_emit_reset\<close> and so clears the bit; and the handler
  that \<^verbatim>\<open>fy_emit_event\<close> runs for a document start event returns 0 although it writes.
\<close>

theorem output_error_only_recorded:
  assumes "len \<noteq> 0"
    and "fst (cfg_output (em_cfg emit) (em_userdata emit) type str len) < len"
    and "emit1 = fy_emit_write emit type str len"
  shows "em_output_error emit1 \<and>
         em_output_error (fy_emit_writes emit1 ws) \<and>
         (len' \<noteq> 0 \<longrightarrow>
            em_userdata (fy_emit_write (fy_emit_writes emit1 ws) type' str' len')
              = snd (cfg_output (em_cfg emit) (em_userdata (fy_emit_writes emit1 ws))
                       type' str' len')) \<and>
         \<not> em_output_error (fy_emit_reset (fy_emit_writes emit1 ws) reset_events) \<and>
         (em_fyds emit = None \<and> fyd_fyds fyd = Some fyds \<and> fyd_root fyd = Some fyn \<and>
          keeps_fyds nw \<longrightarrow>
            fst (fy_emit_document nw emit1 (Some fyd)) = 0) \<and>
         (em_state emit = FYES_NONE \<and> em_queued_events emit = [] \<and>
          ev_type fyep = FYET_STREAM_START \<longrightarrow>
            (\<exists>emit'. fy_emit_event nw emit1 (Some fyep) = Some (0, emit') \<and>
                      \<not> em_output_error emit')) \<and>
         (ev_type fyep' = FYET_DOCUMENT_START \<longrightarrow>
            fst (fy_emit_handle_document_start emit1 fyep' first) = 0)"
proof -
  have e1: "em_output_error emit1"
    using assms by (simp add: fy_emit_write_output_error)
  have e2: "em_output_error (fy_emit_writes emit1 ws)"
    using e1 by (rule fy_emit_writes_output_error)
  have cfg: "em_cfg (fy_emit_writes emit1 ws) = em_cfg emit"
    using assms(3) by (simp add: fy_emit_writes_cfg fy_emit_write_cfg)
  have ud: "len' \<noteq> 0 \<longrightarrow>
      em_userdata (fy_emit_write (fy_emit_writes emit1 ws) type' str' len')
        = snd (cfg_output (em_cfg emit) (em_userdata (fy_emit_writes emit1 ws)) type' str' len')"
    using fy_emit_write_userdata [of len' "fy_emit_writes emit1 ws" type' str'] cfg by simp
  have rs: "\<not> em_output_error (fy_emit_reset (fy_emit_writes emit1 ws) reset_events)"
    by (rule fy_emit_reset_output_error)
  have doc: "em_fyds emit = None \<and> fyd_fyds fyd = Some fyds \<and> fyd_root fyd = Some fyn \<and>
      keeps_fyds nw \<longrightarrow> fst (fy_emit_document nw emit1 (Some fyd)) = 0"
    using fy_emit_document_ok [of emit1 fyd fyds fyn nw] assms(3)
    by (simp add: fy_emit_write_fyds)
  have ev: "em_state emit = FYES_NONE \<and> em_queued_events emit = [] \<and>
      ev_type fyep = FYET_STREAM_START \<longrightarrow>
        (\<exists>emit'. fy_emit_event nw emit1 (Some fyep) = Some (0, emit') \<and> \<not> em_output_error emit')"
    using fy_emit_event_stream_start [of emit1 fyep nw] assms(3)
    by (auto simp add: fy_emit_write_state)
  have ds: "ev_type fyep' = FYET_DOCUMENT_START \<longrightarrow>
      fst (fy_emit_handle_document_start emit1 fyep' first) = 0"
    by (simp add: fy_emit_handle_document_start_def Let_def)
  from e1 e2 ud rs doc ev ds show ?thesis
    by simp
qed

theorem output_error_only_recorded_witness:
  "fst (cfg_output (em_cfg (bounded_emitter 0)) (em_userdata (bounded_emitter 0))
          fyewt_plain_scalar [0x61] 1) < 1 \<and>
   em_fyds (bounded_emitter 0) = None \<and>
   fyd_fyds example_document = Some example_document_state \<and>
   fyd_root example_document = Some [0x61, 0x62] \<and>
   keeps_fyds scalar_writers \<and>
   em_state (bounded_emitter 0) = FYES_NONE \<and>
   em_queued_events (bounded_emitter 0) = [] \<and>
   ev_type stream_start_event = FYET_STREAM_START \<and>
   em_output_error (fy_emit_write (bounded_emitter 0) fyewt_plain_scalar [0x61] 1) \<and>
   em_output_error
     (fy_emit_writes (fy_emit_write (bounded_emitter 0) fyewt_plain_scalar [0x61] 1)
        [(fyewt_linebreak, [0x0a], 1)]) \<and>
   fst (fy_emit_document scalar_writers
          (fy_emit_write (bounded_emitter 0) fyewt_plain_scalar [0x61] 1)
          (Some example_document)) = 0 \<and>
   (\<exists>emit'. fy_emit_event scalar_writers
               (fy_emit_write (bounded_emitter 0) fyewt_plain_scalar [0x61] 1)
               (Some stream_start_event) = Some (0, emit') \<and>
             \<not> em_output_error emit')"
  using output_error_only_recorded [of 1 "bounded_emitter 0" fyewt_plain_scalar "[0x61]"
      "fy_emit_write (bounded_emitter 0) fyewt_plain_scalar [0x61] 1"
      "[(fyewt_linebreak, [0x0a], 1)]" 1 fyewt_linebreak "[0x0a]" False
      example_document example_document_state "[0x61, 0x62]" scalar_writers
      stream_start_event stream_start_event True]
    keeps_fyds_scalar_writers
  by (simp add: bounded_emitter_def bounded_output_def example_document_def
      stream_start_event_def)

text \<open>
  With a callback that accepts nothing (a buffer of no bytes), the first write sets the
  bit and the second write is passed to the callback all the same. \<^verbatim>\<open>fy_emit_document\<close> then
  writes the document (a line break, \<^verbatim>\<open>---\<close>, the scalar and a line break reach the
  callback, which accepts none of them) and returns 0 with the bit still set; \<^verbatim>\<open>fy_emit_event\<close> returns 0
  for a stream start and for the stream end after it, and the bit is clear afterwards.
\<close>

theorem later_writes_reach_the_callback:
  "em_output_error (fy_emit_write (bounded_emitter 0) fyewt_plain_scalar [0x61] 1) \<and>
   em_userdata (fy_emit_write (bounded_emitter 0) fyewt_plain_scalar [0x61] 1) = [[0x61]] \<and>
   em_userdata (fy_emit_write (fy_emit_write (bounded_emitter 0) fyewt_plain_scalar [0x61] 1)
       fyewt_plain_scalar [0x62] 1) = [[0x61], [0x62]] \<and>
   fst (fy_emit_document scalar_writers
          (fy_emit_write (bounded_emitter 0) fyewt_plain_scalar [0x61] 1)
          (Some example_document)) = 0 \<and>
   em_output_error (snd (fy_emit_document scalar_writers
          (fy_emit_write (bounded_emitter 0) fyewt_plain_scalar [0x61] 1)
          (Some example_document))) \<and>
   em_userdata (snd (fy_emit_document scalar_writers
          (fy_emit_write (bounded_emitter 0) fyewt_plain_scalar [0x61] 1)
          (Some example_document)))
     = [[0x61], [0x0a], [0x2d, 0x2d, 0x2d], [0x61, 0x62], [0x0a]] \<and>
   map_option fst (fy_emit_event scalar_writers
          (fy_emit_write (bounded_emitter 0) fyewt_plain_scalar [0x61] 1)
          (Some stream_start_event)) = Some 0 \<and>
   map_option (em_output_error \<circ> snd) (fy_emit_event scalar_writers
          (fy_emit_write (bounded_emitter 0) fyewt_plain_scalar [0x61] 1)
          (Some stream_start_event)) = Some False \<and>
   map_option fst (fy_emit_event scalar_writers
          (snd (the (fy_emit_event scalar_writers
             (fy_emit_write (bounded_emitter 0) fyewt_plain_scalar [0x61] 1)
             (Some stream_start_event))))
          (Some stream_end_event)) = Some 0"
  by code_simp

section \<open>Scalar style in JSON mode\<close>




section \<open>The decoded length and the storage hint\<close>






end
